theory Spec2Isabelle
  imports Complex_Main "HOL-Library.Multiset"
begin

section \<open>Tensor elements\<close>

text \<open>
  The smooth-quant code computes on torch float tensors. An element is modelled as an exact
  real number or one of the IEEE special values that division by zero and invalid operations
  produce. Rounding, overflow of finite results and the sign of zero are not modelled: a finite
  result is the exact real result.
\<close>

datatype fval = Fin real | PInf | NInf | NaN


fun f_abs :: "fval \<Rightarrow> fval" where
  "f_abs (Fin x) = Fin \<bar>x\<bar>"
| "f_abs PInf = PInf"
| "f_abs NInf = PInf"
| "f_abs NaN = NaN"

text \<open>Elementwise \<open>torch.max\<close> and \<open>torch.min\<close> of two tensors propagate NaN.\<close>

fun f_max :: "fval \<Rightarrow> fval \<Rightarrow> fval" where
  "f_max NaN y = NaN"
| "f_max x NaN = NaN"
| "f_max PInf y = PInf"
| "f_max x PInf = PInf"
| "f_max NInf y = y"
| "f_max x NInf = x"
| "f_max (Fin a) (Fin b) = Fin (max a b)"

fun f_min :: "fval \<Rightarrow> fval \<Rightarrow> fval" where
  "f_min NaN y = NaN"
| "f_min x NaN = NaN"
| "f_min NInf y = NInf"
| "f_min x NInf = NInf"
| "f_min PInf y = y"
| "f_min x PInf = x"
| "f_min (Fin a) (Fin b) = Fin (min a b)"

text \<open>
  \<open>torch.pow(t, a)\<close> with a Python float exponent: \<open>pow(x, 0) = 1\<close> for every \<open>x\<close>, a negative
  base with a non-integer exponent is NaN, and zero to a negative power is infinite.
\<close>

definition is_int :: "real \<Rightarrow> bool" where
  "is_int a = (of_int \<lfloor>a\<rfloor> = a)"

definition is_odd_int :: "real \<Rightarrow> bool" where
  "is_odd_int a = (is_int a \<and> odd \<lfloor>a\<rfloor>)"

fun f_pow :: "fval \<Rightarrow> real \<Rightarrow> fval" where
  "f_pow (Fin x) a =
     (if a = 0 then Fin 1
      else if 0 < x then Fin (x powr a)
      else if x = 0 then (if 0 < a then Fin 0 else PInf)
      else if is_int a then (if is_odd_int a then Fin (- (\<bar>x\<bar> powr a)) else Fin (\<bar>x\<bar> powr a))
      else NaN)"
| "f_pow PInf a = (if a = 0 then Fin 1 else if 0 < a then PInf else Fin 0)"
| "f_pow NInf a =
     (if a = 0 then Fin 1
      else if 0 < a then (if is_odd_int a then NInf else PInf)
      else Fin 0)"
| "f_pow NaN a = (if a = 0 then Fin 1 else NaN)"

fun f_div :: "fval \<Rightarrow> fval \<Rightarrow> fval" where
  "f_div NaN y = NaN"
| "f_div x NaN = NaN"
| "f_div (Fin a) (Fin b) =
     (if b \<noteq> 0 then Fin (a / b) else if 0 < a then PInf else if a < 0 then NInf else NaN)"
| "f_div (Fin a) PInf = Fin 0"
| "f_div (Fin a) NInf = Fin 0"
| "f_div PInf (Fin b) = (if 0 \<le> b then PInf else NInf)"
| "f_div NInf (Fin b) = (if 0 \<le> b then NInf else PInf)"
| "f_div PInf PInf = NaN"
| "f_div PInf NInf = NaN"
| "f_div NInf PInf = NaN"
| "f_div NInf NInf = NaN"

fun f_mul :: "fval \<Rightarrow> fval \<Rightarrow> fval" where
  "f_mul NaN y = NaN"
| "f_mul x NaN = NaN"
| "f_mul (Fin a) (Fin b) = Fin (a * b)"
| "f_mul (Fin a) PInf = (if 0 < a then PInf else if a < 0 then NInf else NaN)"
| "f_mul (Fin a) NInf = (if 0 < a then NInf else if a < 0 then PInf else NaN)"
| "f_mul PInf (Fin b) = (if 0 < b then PInf else if b < 0 then NInf else NaN)"
| "f_mul NInf (Fin b) = (if 0 < b then NInf else if b < 0 then PInf else NaN)"
| "f_mul PInf PInf = PInf"
| "f_mul PInf NInf = NInf"
| "f_mul NInf PInf = NInf"
| "f_mul NInf NInf = PInf"

fun f_add :: "fval \<Rightarrow> fval \<Rightarrow> fval" where
  "f_add NaN y = NaN"
| "f_add x NaN = NaN"
| "f_add (Fin a) (Fin b) = Fin (a + b)"
| "f_add PInf NInf = NaN"
| "f_add NInf PInf = NaN"
| "f_add PInf y = PInf"
| "f_add NInf y = NInf"
| "f_add x PInf = PInf"
| "f_add x NInf = NInf"

text \<open>\<open>torch.clip(t, min=lo)\<close> with a finite Python float bound; NaN stays NaN.\<close>

fun f_clip_min :: "fval \<Rightarrow> real \<Rightarrow> fval" where
  "f_clip_min (Fin a) lo = Fin (max a lo)"
| "f_clip_min PInf lo = PInf"
| "f_clip_min NInf lo = Fin lo"
| "f_clip_min NaN lo = NaN"

text \<open>\<open>1.0 / t\<close>.\<close>

definition f_recip :: "fval \<Rightarrow> fval" where
  "f_recip x = f_div (Fin 1) x"

section \<open>Errors and shapes\<close>

text \<open>
  The Python exceptions the modelled code can raise. \<open>NotModelled\<close> is not an exception: it
  marks a path of the source that this development leaves out.
\<close>

datatype error = RuntimeError | IndexError | ValueError | TypeError | KeyError | AttributeError
  | UnboundLocalError | AssertionError | NotModelled

definition bindE :: "error + 'a \<Rightarrow> ('a \<Rightarrow> error + 'b) \<Rightarrow> error + 'b" where
  "bindE m f = (case m of Inl e \<Rightarrow> Inl e | Inr x \<Rightarrow> f x)"

fun mapE :: "('a \<Rightarrow> error + 'b) \<Rightarrow> 'a list \<Rightarrow> error + 'b list" where
  "mapE f [] = Inr []"
| "mapE f (x # xs) = bindE (f x) (\<lambda>y. bindE (mapE f xs) (\<lambda>ys. Inr (y # ys)))"

fun foldE :: "('a \<Rightarrow> 's \<Rightarrow> error + 's) \<Rightarrow> 'a list \<Rightarrow> 's \<Rightarrow> error + 's" where
  "foldE f [] s = Inr s"
| "foldE f (x # xs) s = bindE (f x s) (foldE f xs)"

text \<open>
  Broadcasting of a binary operation along one dimension: the sizes agree, or one of them
  is 1; any other pair of sizes raises RuntimeError.
\<close>

definition bcast :: "('a \<Rightarrow> 'b \<Rightarrow> 'c) \<Rightarrow> 'a list \<Rightarrow> 'b list \<Rightarrow> error + 'c list" where
  "bcast g xs ys =
     (if length xs = length ys then Inr (map2 g xs ys)
      else if length ys = 1 then Inr (map (\<lambda>x. g x (hd ys)) xs)
      else if length xs = 1 then Inr (map (g (hd xs)) ys)
      else Inl RuntimeError)"

text \<open>An in-place operation \<open>t *= s\<close> must keep the shape of \<open>t\<close>.\<close>

definition bcast_inplace :: "('a \<Rightarrow> 'b \<Rightarrow> 'a) \<Rightarrow> 'a list \<Rightarrow> 'b list \<Rightarrow> error + 'a list" where
  "bcast_inplace g xs ys =
     (if length ys = length xs \<or> length ys = 1 then bcast g xs ys else Inl RuntimeError)"

text \<open>
  \<open>t[mask] = v\<close> for a 1-D tensor and a boolean mask: the mask must have the tensor's shape
  (IndexError otherwise).
\<close>

definition mask_set :: "fval list \<Rightarrow> bool list \<Rightarrow> fval \<Rightarrow> error + fval list" where
  "mask_set t msk v =
     (if length msk = length t then Inr (map2 (\<lambda>x b. if b then v else x) t msk)
      else Inl IndexError)"

text \<open>
  A 2-D tensor is the list of its rows. \<open>torch.cat(ts, dim=0)\<close> raises on an empty list and
  on rows of different widths.
\<close>

definition cat_dim0 :: "fval list list list \<Rightarrow> error + fval list list" where
  "cat_dim0 ts =
     (if ts = [] then Inl RuntimeError
      else let rows = concat ts in
        if \<forall>r \<in> set rows. length r = length (hd rows) then Inr rows else Inl RuntimeError)"

text \<open>\<open>torch.max(t, dim=0)[0]\<close>: the column-wise maximum; no rows is an error.\<close>

definition max_dim0 :: "fval list list \<Rightarrow> error + fval list" where
  "max_dim0 rows = (case rows of [] \<Rightarrow> Inl IndexError | r # rs \<Rightarrow> Inr (fold (\<lambda>x acc. map2 f_max acc x) rs r))"

definition min_dim0 :: "fval list list \<Rightarrow> error + fval list" where
  "min_dim0 rows = (case rows of [] \<Rightarrow> Inl IndexError | r # rs \<Rightarrow> Inr (fold (\<lambda>x acc. map2 f_min acc x) rs r))"

section \<open>Scale computation\<close>

text \<open>
  \<open>cal_scale\<close> (utility.py). \<open>weight_max_of\<close> is its first two statements, \<open>cal_scale_orig\<close> the
  whole branch for \<open>scale_type == "orig"\<close>; any other scale type falls through and returns
  None. The debug line evaluates Python's \<open>max(input_max)\<close>, which raises ValueError on an
  empty tensor.
\<close>

definition weight_max_of :: "fval list list list \<Rightarrow> error + fval list" where
  "weight_max_of weights = bindE (cat_dim0 weights) (\<lambda>w. max_dim0 (map (map f_abs) w))"

definition cal_scale_orig :: "fval list \<Rightarrow> fval list list list \<Rightarrow> real \<Rightarrow> error + fval list" where
  "cal_scale_orig input_max weights alpha =
     bindE (weight_max_of weights) (\<lambda>weight_max.
       let input_power = map (\<lambda>x. f_pow x alpha) input_max in
       if input_max = [] then Inl ValueError
       else
         let weight_power = map (\<lambda>x. f_pow x (1 - alpha)) weight_max in
         bindE (bcast f_div input_power weight_power) (\<lambda>q.
           let scale = map (\<lambda>x. f_clip_min x (1 / 100000)) q in
           bindE (mask_set scale (map (\<lambda>x. x = Fin 0) input_power) (Fin 1)) (\<lambda>scale.
             if length input_power = length weight_power
             then mask_set scale (map (\<lambda>x. x = Fin 0) weight_power) (Fin 0)
             else Inr scale)))"

definition cal_scale :: "fval list \<Rightarrow> fval list list list \<Rightarrow> real \<Rightarrow> string \<Rightarrow> error + fval list option" where
  "cal_scale input_max weights alpha scale_type =
     (if scale_type = ''orig''
      then bindE (cal_scale_orig input_max weights alpha) (\<lambda>s. Inr (Some s))
      else Inr None)"

text \<open>
  The scale of one channel as the specification words it: the clipped ratio of the powers,
  forced to 1 where the activation power is zero, and forced to 0 where the weight power is
  zero. \<open>scale_sizes_agree\<close> is the value when the two power tensors have the same size,
  \<open>scale_sizes_differ\<close> the value when the weight power has a single element that is broadcast.
\<close>

definition clipped_ratio :: "real \<Rightarrow> fval \<Rightarrow> fval \<Rightarrow> fval" where
  "clipped_ratio alpha x w = f_clip_min (f_div (f_pow x alpha) (f_pow w (1 - alpha))) (1 / 100000)"

definition scale_sizes_agree :: "real \<Rightarrow> fval \<Rightarrow> fval \<Rightarrow> fval" where
  "scale_sizes_agree alpha x w =
     (if f_pow w (1 - alpha) = Fin 0 then Fin 0
      else if f_pow x alpha = Fin 0 then Fin 1
      else clipped_ratio alpha x w)"

definition scale_sizes_differ :: "real \<Rightarrow> fval \<Rightarrow> fval \<Rightarrow> fval" where
  "scale_sizes_differ alpha x w =
     (if f_pow x alpha = Fin 0 then Fin 1 else clipped_ratio alpha x w)"



section \<open>Modules and models\<close>

text \<open>
  A weight is a 1-D tensor (normalisation layers), a 2-D tensor \<open>[out, in]\<close> (Linear) or a 4-D
  tensor \<open>[out, in / groups, kh, kw]\<close> (Conv2d), as nested lists. A tensor with an empty
  dimension followed by further dimensions has no representation here.
\<close>

datatype tensor = T1 "fval list" | T2 "fval list list" | T4 "fval list list list list"

text \<open>
  The torch class a layer is an instance of (the code's \<open>isinstance\<close> tests) is recorded
  beside its class name (the code's \<open>__class__.__name__\<close> tests): a subclass has its own name.
  \<open>affine\<close> stands for \<open>affine\<close> and \<open>elementwise_affine\<close>; \<open>num_features\<close> is \<open>None\<close> where the class
  has no such attribute (LayerNorm, GroupNorm).
\<close>

datatype torch_class = Linear | Conv2d | BatchNorm2d | GroupNorm | InstanceNorm2d | LayerNorm
  | OtherClass

record layer =
  cls_name :: string
  torch_cls :: torch_class
  weight :: "tensor option"
  bias :: "fval list option"
  affine :: bool
  num_features :: "nat option"
  groups :: nat
  in_channels :: nat
  out_channels :: nat

text \<open>A \<open>torch.nn.Linear\<close> and an affine \<open>torch.nn.LayerNorm\<close> with given parameters.\<close>

definition linear_layer :: "fval list list \<Rightarrow> fval list option \<Rightarrow> layer" where
  "linear_layer W b =
     \<lparr>cls_name = ''Linear'', torch_cls = Linear, weight = Some (T2 W), bias = b, affine = False,
      num_features = None, groups = 0, in_channels = 0, out_channels = 0\<rparr>"

definition layer_norm_layer :: "fval list \<Rightarrow> fval list \<Rightarrow> layer" where
  "layer_norm_layer w b =
     \<lparr>cls_name = ''LayerNorm'', torch_cls = LayerNorm, weight = Some (T1 w), bias = Some b,
      affine = True, num_features = None, groups = 0, in_channels = 0, out_channels = 0\<rparr>"


text \<open>
  \<open>SQLinearWrapper\<close> holds the wrapped module \<open>sq_linear\<close>, the buffer \<open>input_scale\<close> and the flag
  \<open>ipex\<close>. The quantisation parameters it also stores (\<open>scale\<close>, \<open>zero_point\<close>) influence neither
  its weight nor its forward and are left out.
\<close>

datatype module = Layer layer | SQLinearWrapper layer "fval list" bool

fun class_name :: "module \<Rightarrow> string" where
  "class_name (Layer l) = cls_name l"
| "class_name (SQLinearWrapper l s i) = ''SQLinearWrapper''"

text \<open>
  A model is its root module and its named submodules in registration order (a Python
  attribute tree, flattened to dotted names). \<open>get_module\<close> walks the dotted name and skips
  what it cannot resolve; on a name that resolves to nothing it ends at the module it started
  from, the root.
\<close>

record model =
  root :: module
  submodules :: "(string \<times> module) list"

type_synonym 'v dict = "(string \<times> 'v) list"

fun dict_set :: "'k \<Rightarrow> 'v \<Rightarrow> ('k \<times> 'v) list \<Rightarrow> ('k \<times> 'v) list" where
  "dict_set k v [] = [(k, v)]"
| "dict_set k v (p # ps) = (if fst p = k then (k, v) # ps else p # dict_set k v ps)"

definition dict_get :: "'v dict \<Rightarrow> string \<Rightarrow> error + 'v" where
  "dict_get d k = (case map_of d k of None \<Rightarrow> Inl KeyError | Some v \<Rightarrow> Inr v)"

definition get_module :: "model \<Rightarrow> string \<Rightarrow> module" where
  "get_module m key = (case map_of (submodules m) key of Some x \<Rightarrow> x | None \<Rightarrow> root m)"

definition set_module :: "model \<Rightarrow> string \<Rightarrow> module \<Rightarrow> model" where
  "set_module m key new_module = m\<lparr>submodules := dict_set key new_module (submodules m)\<rparr>"

text \<open>An in-place change of the object that \<open>get_module\<close> returned.\<close>

definition mutate_module :: "model \<Rightarrow> string \<Rightarrow> module \<Rightarrow> model" where
  "mutate_module m key new_module =
     (case map_of (submodules m) key of
        Some x \<Rightarrow> m\<lparr>submodules := dict_set key new_module (submodules m)\<rparr>
      | None \<Rightarrow> m\<lparr>root := new_module\<rparr>)"

definition named_modules :: "model \<Rightarrow> (string \<times> module) list" where
  "named_modules m = ([], root m) # submodules m"

section \<open>Scaling a weight by a per-channel vector\<close>

text \<open>
  The code reshapes the 1-D scale before it multiplies; a view is named after the shape it
  gives the scale: \<open>V_1d\<close> is the scale as it is, \<open>V_1n\<close> is \<open>scale.view(1, n)\<close>, \<open>V_n1\<close> is
  \<open>scale.view(n, 1)\<close>, \<open>V_1n11\<close> is \<open>scale.view(1, n, 1, 1)\<close> and \<open>V_n111\<close> is
  \<open>scale.view(n, 1, 1, 1)\<close>. torch aligns the shapes from the last dimension. A view of higher
  rank than the weight would broadcast the result to that rank: in place that raises, out of
  place it cannot arise for the weight of a Linear (2-D) or a Conv2d (4-D); the model raises in
  both cases.
\<close>

datatype view = V_1d | V_1n | V_n1 | V_1n11 | V_n111

definition bc :: "bool \<Rightarrow> ('a \<Rightarrow> 'b \<Rightarrow> 'a) \<Rightarrow> 'a list \<Rightarrow> 'b list \<Rightarrow> error + 'a list" where
  "bc inplace g xs ys = (if inplace then bcast_inplace g xs ys else bcast g xs ys)"

definition along_last :: "bool \<Rightarrow> (fval \<Rightarrow> fval \<Rightarrow> fval) \<Rightarrow> tensor \<Rightarrow> fval list \<Rightarrow> error + tensor" where
  "along_last ip f t s =
     (case t of
        T1 w \<Rightarrow> bindE (bc ip f w s) (\<lambda>r. Inr (T1 r))
      | T2 w \<Rightarrow> bindE (mapE (\<lambda>row. bc ip f row s) w) (\<lambda>r. Inr (T2 r))
      | T4 w \<Rightarrow> bindE (mapE (mapE (mapE (\<lambda>row. bc ip f row s))) w) (\<lambda>r. Inr (T4 r)))"

fun tensor_scale :: "bool \<Rightarrow> (fval \<Rightarrow> fval \<Rightarrow> fval) \<Rightarrow> view \<Rightarrow> tensor \<Rightarrow> fval list \<Rightarrow> error + tensor" where
  "tensor_scale ip f V_1d t s = along_last ip f t s"
| "tensor_scale ip f V_1n (T1 w) s = Inl RuntimeError"
| "tensor_scale ip f V_1n t s = along_last ip f t s"
| "tensor_scale ip f V_n1 (T1 w) s = Inl RuntimeError"
| "tensor_scale ip f V_n1 (T2 w) s =
     bindE (bc ip (\<lambda>row v. map (\<lambda>x. f x v) row) w s) (\<lambda>r. Inr (T2 r))"
| "tensor_scale ip f V_n1 (T4 w) s =
     bindE (mapE (mapE (\<lambda>plane. bc ip (\<lambda>row v. map (\<lambda>x. f x v) row) plane s)) w)
       (\<lambda>r. Inr (T4 r))"
| "tensor_scale ip f V_1n11 (T4 w) s =
     bindE (mapE (\<lambda>filt. bc ip (\<lambda>plane v. map (map (\<lambda>x. f x v)) plane) filt s) w)
       (\<lambda>r. Inr (T4 r))"
| "tensor_scale ip f V_1n11 t s = Inl RuntimeError"
| "tensor_scale ip f V_n111 (T4 w) s =
     bindE (bc ip (\<lambda>filt v. map (map (map (\<lambda>x. f x v))) filt) w s) (\<lambda>r. Inr (T4 r))"
| "tensor_scale ip f V_n111 t s = Inl RuntimeError"

text \<open>\<open>t *= scale\<close> on an attribute that may be \<open>None\<close> (TypeError).\<close>

definition imul_opt :: "view \<Rightarrow> tensor option \<Rightarrow> fval list \<Rightarrow> error + tensor option" where
  "imul_opt v t s =
     (case t of None \<Rightarrow> Inl TypeError
      | Some w \<Rightarrow> bindE (tensor_scale True f_mul v w s) (\<lambda>r. Inr (Some r)))"

definition imul_bias :: "fval list option \<Rightarrow> fval list \<Rightarrow> error + fval list option" where
  "imul_bias b s =
     (case b of None \<Rightarrow> Inl TypeError
      | Some w \<Rightarrow> bindE (bcast_inplace f_mul w s) (\<lambda>r. Inr (Some r)))"

text \<open>\<open>reshape_scale_as_weight\<close>: the view the scale gets for a layer's class.\<close>

definition reshape_scale_as_weight :: "module \<Rightarrow> view" where
  "reshape_scale_as_weight m =
     (case m of
        SQLinearWrapper l s i \<Rightarrow> V_1d
      | Layer l \<Rightarrow>
          if torch_cls l = Conv2d \<and> groups l > 1 then V_n111
          else if torch_cls l = Conv2d then V_1n11
          else if torch_cls l = Linear then V_1n
          else V_1d)"

text \<open>
  \<open>t.permute(0, 2, 3, 1)\<close> of a 4-D tensor: \<open>[n, c, h, w]\<close> becomes \<open>[n, h, w, c]\<close>.
\<close>

definition permute_0231 :: "fval list list list list \<Rightarrow> fval list list list list" where
  "permute_0231 x = map (\<lambda>img. map transpose (transpose img)) x"

text \<open>
  \<open>reshape_in_channel_to_last\<close>: the weight with the input channel as the last dimension, as
  rows. A 4-D weight is permuted to \<open>[out, kh, kw, in]\<close> and flattened. A missing weight has
  no \<open>shape\<close> (AttributeError). A 1-D weight would be returned as it is; the rows of
  \<open>cal_scale\<close> have no place for it and the model raises.
\<close>

definition weight_of :: "module \<Rightarrow> tensor option" where
  "weight_of m = (case m of Layer l \<Rightarrow> weight l | SQLinearWrapper l s i \<Rightarrow> weight l)"

definition reshape_in_channel_to_last :: "string \<Rightarrow> model \<Rightarrow> error + fval list list" where
  "reshape_in_channel_to_last layer_name m =
     (case weight_of (get_module m layer_name) of
        None \<Rightarrow> Inl AttributeError
      | Some (T4 w) \<Rightarrow> Inr (concat (concat (permute_0231 w)))
      | Some (T2 w) \<Rightarrow> Inr w
      | Some (T1 w) \<Rightarrow> Inl RuntimeError)"

section \<open>SQLinearWrapper\<close>

text \<open>
  \<open>_calculate_qparams\<close> as far as it can raise: the products \<open>input_minmax[i] * input_scale\<close>
  broadcast, and \<open>torch.min\<close> and \<open>torch.max\<close> of an empty tensor raise. A missing
  \<open>input_minmax\<close> (the default \<open>None\<close>) is not subscriptable.
\<close>

definition calculate_qparams :: "fval list \<Rightarrow> (fval list \<times> fval list) option \<Rightarrow> error + unit" where
  "calculate_qparams input_scale input_minmax =
     (case input_minmax of
        None \<Rightarrow> Inl TypeError
      | Some (mn, mx) \<Rightarrow>
          bindE (bcast f_mul mn input_scale) (\<lambda>lo.
            if lo = [] then Inl RuntimeError
            else bindE (bcast f_mul mx input_scale) (\<lambda>hi.
              if hi = [] then Inl RuntimeError else Inr ())))"

text \<open>\<open>_update_sq_linear\<close> and \<open>_recover_sq_linear\<close>: \<open>weight /= scale.view(1, n)\<close> and \<open>*=\<close>.\<close>

definition update_sq_linear :: "layer \<Rightarrow> fval list \<Rightarrow> error + layer" where
  "update_sq_linear l input_scale =
     (case weight l of
        None \<Rightarrow> Inl TypeError
      | Some w \<Rightarrow> bindE (tensor_scale True f_div V_1n w input_scale)
                   (\<lambda>r. Inr (l\<lparr>weight := Some r\<rparr>)))"

definition recover_sq_linear :: "layer \<Rightarrow> fval list \<Rightarrow> error + layer" where
  "recover_sq_linear l input_scale =
     (case weight l of
        None \<Rightarrow> Inl TypeError
      | Some w \<Rightarrow> bindE (tensor_scale True f_mul V_1n w input_scale)
                   (\<lambda>r. Inr (l\<lparr>weight := Some r\<rparr>)))"

text \<open>\<open>SQLinearWrapper.__init__(module, input_scale, input_minmax, alpha)\<close>.\<close>

definition SQLinearWrapper_init :: "layer \<Rightarrow> fval list \<Rightarrow> (fval list \<times> fval list) option \<Rightarrow> error + module" where
  "SQLinearWrapper_init l input_scale input_minmax =
     bindE (calculate_qparams input_scale input_minmax) (\<lambda>u.
       bindE (update_sq_linear l input_scale) (\<lambda>l'.
         Inr (SQLinearWrapper l' input_scale False)))"

definition fin_pos :: "fval \<Rightarrow> bool" where
  "fin_pos v = (case v of Fin r \<Rightarrow> 0 < r | _ \<Rightarrow> False)"

section \<open>Forward passes\<close>

text \<open>
  \<open>torch.nn.Linear.forward\<close> on one input vector: \<open>x W\<^sup>T + b\<close>. The input has to have the width
  of the weight's rows.
\<close>

definition dot :: "fval list \<Rightarrow> fval list \<Rightarrow> fval" where
  "dot x w = foldr f_add (map2 f_mul x w) (Fin 0)"

definition linear_forward :: "layer \<Rightarrow> fval list \<Rightarrow> error + fval list" where
  "linear_forward l x =
     (case weight l of
        Some (T2 w) \<Rightarrow>
          if \<forall>row \<in> set w. length row = length x
          then (case bias l of
                  None \<Rightarrow> Inr (map (dot x) w)
                | Some b \<Rightarrow> if length b = length w then Inr (map2 f_add (map (dot x) w) b)
                            else Inl RuntimeError)
          else Inl RuntimeError
      | _ \<Rightarrow> Inl RuntimeError)"

text \<open>
  \<open>torch.nn.LayerNorm.forward\<close> on one input vector. The normalisation itself (subtract the
  mean, divide by the standard deviation) is torch's; it is the parameter \<open>normalise\<close>. The
  learnable part multiplies by the weight and adds the bias, elementwise.
\<close>

definition layer_norm_forward :: "(fval list \<Rightarrow> fval list) \<Rightarrow> layer \<Rightarrow> fval list \<Rightarrow> error + fval list" where
  "layer_norm_forward normalise l x =
     (if \<not> affine l then Inr (normalise x)
      else case (weight l, bias l) of
        (Some (T1 w), Some b) \<Rightarrow>
          if length w = length x \<and> length b = length x \<and> length (normalise x) = length x
          then Inr (map2 f_add (map2 f_mul (normalise x) w) b)
          else Inl RuntimeError
      | (Some (T1 w), None) \<Rightarrow>
          if length w = length x \<and> length (normalise x) = length x
          then Inr (map2 f_mul (normalise x) w)
          else Inl RuntimeError
      | _ \<Rightarrow> Inl RuntimeError)"

text \<open>
  The forward pass of a module on one input vector. Only Linear and LayerNorm layers have a
  modelled forward. \<open>SQLinearWrapper.forward\<close> multiplies the input by \<open>input_scale\<close> (unless the
  \<open>ipex\<close> flag is set) and applies the wrapped module.
\<close>

definition layer_forward :: "(fval list \<Rightarrow> fval list) \<Rightarrow> layer \<Rightarrow> fval list \<Rightarrow> error + fval list" where
  "layer_forward normalise l X =
     (if torch_cls l = Linear then linear_forward l X
      else if torch_cls l = LayerNorm then layer_norm_forward normalise l X
      else Inl NotModelled)"

fun forward :: "(fval list \<Rightarrow> fval list) \<Rightarrow> module \<Rightarrow> fval list \<Rightarrow> error + fval list" where
  "forward normalise (Layer l) X = layer_forward normalise l X"
| "forward normalise (SQLinearWrapper l input_scale ipex) X =
     (if ipex then layer_forward normalise l X
      else bindE (bcast f_mul X input_scale) (\<lambda>X'. layer_forward normalise l X'))"

text \<open>A model that applies the named submodules one after the other.\<close>

definition sequential_forward ::
  "(fval list \<Rightarrow> fval list) \<Rightarrow> model \<Rightarrow> string list \<Rightarrow> fval list \<Rightarrow> error + fval list" where
  "sequential_forward normalise m names X =
     foldE (\<lambda>name Y. forward normalise (get_module m name) Y) names X"

section \<open>TorchSmoothQuant: state\<close>

text \<open>
  \<open>alpha\<close> is a Python float, the string \<open>"auto"\<close>, or the per-layer dictionary the auto-alpha
  tuner returns.
\<close>

datatype alpha_t = AlphaFloat real | AlphaAuto | AlphaDict "real dict"

text \<open>
  The attributes of a \<open>TorchSmoothQuant\<close> object that the modelled methods read or write; the
  field \<open>self_x\<close> is \<open>self.x\<close>. The five cached call parameters do not exist before the first
  call of \<open>_check_need_calibration\<close> (\<open>None\<close> here). \<open>self_q_func\<close> says whether a calibration
  function was given.
\<close>

record sq_state =
  self_model :: model
  self_q_func :: bool
  self_input_maxes :: "fval list dict"
  self_input_mins :: "fval list dict"
  self_input_maxes_abs :: "fval list dict"
  self_weight_scale_info :: "fval list dict"
  self_absorb_scales_info :: "fval list dict"
  self_scale_sharing :: bool
  self_insert_mul :: bool
  self_allow_absorb :: bool
  self_record_max_info :: bool
  self_absorb_to_layer :: "string list dict option"
  self_need_calibration :: bool
  self_alpha :: "alpha_t option"
  self_percentile :: "int option"
  self_op_types :: "torch_class list option"
  self_scales_per_op :: "bool option"
  self_calib_iter :: "int option"

text \<open>\<open>TorchSmoothQuant.__init__\<close> for a torch module.\<close>

definition TorchSmoothQuant_init :: "model \<Rightarrow> bool \<Rightarrow> bool \<Rightarrow> bool \<Rightarrow> sq_state" where
  "TorchSmoothQuant_init m q_func scale_sharing record_max_info =
     \<lparr>self_model = m, self_q_func = q_func, self_input_maxes = [], self_input_mins = [],
      self_input_maxes_abs = [], self_weight_scale_info = [], self_absorb_scales_info = [],
      self_scale_sharing = scale_sharing, self_insert_mul = False, self_allow_absorb = True,
      self_record_max_info = record_max_info, self_absorb_to_layer = Some [],
      self_need_calibration = False, self_alpha = None, self_percentile = None,
      self_op_types = None, self_scales_per_op = None, self_calib_iter = None\<rparr>"

section \<open>TorchSmoothQuant: applying scales\<close>

text \<open>
  \<open>_scale_layer_weight(layer_name, scale, alpha, input_minmax)\<close>. In insert mode a wrapped
  layer is recovered and unwrapped, any other layer is wrapped with the reciprocal scale. In
  fold mode the weight is replaced by \<open>weight * scale\<close>; on a wrapper \<open>weight\<close> is a read-only
  property, so the assignment of the new Parameter raises after the product was computed.
  \<open>alpha\<close> is only stored by the wrapper and is left out.
\<close>

definition scale_layer_weight ::
  "sq_state \<Rightarrow> string \<Rightarrow> fval list \<Rightarrow> (fval list \<times> fval list) option \<Rightarrow> error + sq_state" where
  "scale_layer_weight st layer_name scale input_minmax =
     (let layer = get_module (self_model st) layer_name in
      if self_insert_mul st then
        (case layer of
           SQLinearWrapper l s i \<Rightarrow>
             bindE (recover_sq_linear l s) (\<lambda>l'.
               Inr (st\<lparr>self_model := set_module (self_model st) layer_name (Layer l')\<rparr>))
         | Layer l \<Rightarrow>
             bindE (SQLinearWrapper_init l (map f_recip scale) input_minmax) (\<lambda>new_module.
               Inr (st\<lparr>self_model := set_module (self_model st) layer_name new_module\<rparr>)))
      else if self_allow_absorb st then
        (case weight_of layer of
           None \<Rightarrow> Inl TypeError
         | Some w \<Rightarrow>
             bindE (tensor_scale False f_mul (reshape_scale_as_weight layer) w scale) (\<lambda>r.
               case layer of
                 SQLinearWrapper l s i \<Rightarrow> Inl KeyError
               | Layer l \<Rightarrow>
                   Inr (st\<lparr>self_model :=
                     mutate_module (self_model st) layer_name (Layer (l\<lparr>weight := Some r\<rparr>))\<rparr>)))
      else Inr st)"

text \<open>
  \<open>_absorb_scales(layer_name, scale)\<close> for one plain layer: the chain of \<open>isinstance\<close> and
  class-name tests in the order of the source. For a LayerNorm without affine parameters the
  source reads \<open>layer.num_features\<close>, which a LayerNorm does not have, and then calls
  \<open>torch.ones\<close> on a tensor; both raise.
\<close>

definition absorb_weight_bias :: "view \<Rightarrow> layer \<Rightarrow> fval list \<Rightarrow> error + layer" where
  "absorb_weight_bias v l scale =
     bindE (imul_opt v (weight l) scale) (\<lambda>w.
       bindE (imul_bias (bias l) scale) (\<lambda>b. Inr (l\<lparr>weight := w, bias := b\<rparr>)))"

definition absorb_bias_weight :: "view \<Rightarrow> layer \<Rightarrow> fval list \<Rightarrow> error + layer" where
  "absorb_bias_weight v l scale =
     bindE (case bias l of None \<Rightarrow> Inr None | Some b \<Rightarrow> imul_bias (Some b) scale) (\<lambda>b.
       bindE (imul_opt v (weight l) scale) (\<lambda>w. Inr (l\<lparr>weight := w, bias := b\<rparr>)))"

definition absorb_layer :: "layer \<Rightarrow> fval list \<Rightarrow> error + layer" where
  "absorb_layer l scale =
     (if torch_cls l = BatchNorm2d \<or> torch_cls l = GroupNorm \<or> torch_cls l = InstanceNorm2d then
        (if affine l then absorb_weight_bias V_1d l scale
         else case num_features l of
             None \<Rightarrow> Inl AttributeError
           | Some k \<Rightarrow>
               bindE (bcast f_mul (replicate k (Fin 1)) scale) (\<lambda>w.
                 Inr (l\<lparr>affine := True, weight := Some (T1 w), bias := Some (replicate k (Fin 0))\<rparr>)))
      else if torch_cls l = LayerNorm then
        (if affine l then absorb_weight_bias V_1d l scale
         else case num_features l of
             None \<Rightarrow> Inl AttributeError
           | Some k \<Rightarrow> bindE (bcast f_mul (replicate k (Fin 1)) scale) (\<lambda>w. Inl TypeError))
      else if torch_cls l = Conv2d then absorb_bias_weight V_n111 l scale
      else if torch_cls l = Linear then absorb_bias_weight V_n1 l scale
      else if cls_name l = ''LlamaRMSNorm'' \<or> cls_name l = ''T5LayerNorm'' then
        bindE (imul_opt V_1d (weight l) scale) (\<lambda>w. Inr (l\<lparr>weight := w\<rparr>))
      else
        bindE (case weight l of None \<Rightarrow> Inr None | Some w \<Rightarrow> imul_opt V_1d (Some w) scale) (\<lambda>w.
          bindE (case bias l of None \<Rightarrow> Inr None | Some b \<Rightarrow> imul_bias (Some b) scale) (\<lambda>b.
            Inr (l\<lparr>weight := w, bias := b\<rparr>))))"

text \<open>
  On a wrapper no class test applies; the last branch multiplies its \<open>weight\<close> property in
  place and fails to assign it back.
\<close>

definition absorb_scales :: "sq_state \<Rightarrow> string \<Rightarrow> fval list \<Rightarrow> error + sq_state" where
  "absorb_scales st layer_name scale =
     (if self_insert_mul st \<or> \<not> self_allow_absorb st then Inr st
      else case get_module (self_model st) layer_name of
          SQLinearWrapper l s i \<Rightarrow>
            (case weight l of
               None \<Rightarrow> Inr st
             | Some w \<Rightarrow> bindE (tensor_scale True f_mul V_1d w scale) (\<lambda>r. Inl KeyError))
        | Layer l \<Rightarrow>
            bindE (absorb_layer l scale) (\<lambda>l'.
              Inr (st\<lparr>self_model := mutate_module (self_model st) layer_name (Layer l')\<rparr>)))"

section \<open>TorchSmoothQuant: computing and applying the scales of a transform\<close>

text \<open>
  \<open>_cal_scales(absorb_to_layer, input_maxes, alpha)\<close>. The first loop looks up the input max of
  the first layer of every group; the second computes the scale of every group, stores its
  reciprocal (0 where the scale is 0) for the absorbing layer and the scale itself for every
  layer of the group. \<open>alpha_for\<close> is \<open>alpha[key] if isinstance(alpha, dict) else alpha\<close>;
  the string \<open>"auto"\<close> (\<open>None\<close> here) only fails inside \<open>cal_scale\<close>, at \<open>torch.pow\<close>.
\<close>

definition alpha_for :: "alpha_t \<Rightarrow> string \<Rightarrow> error + real option" where
  "alpha_for a key =
     (case a of
        AlphaDict d \<Rightarrow> bindE (dict_get d key) (\<lambda>r. Inr (Some r))
      | AlphaFloat r \<Rightarrow> Inr (Some r)
      | AlphaAuto \<Rightarrow> Inr None)"

definition absorb_to_input_max :: "fval list dict \<Rightarrow> string \<times> string list \<Rightarrow> error + fval list" where
  "absorb_to_input_max input_maxes item =
     (case snd item of [] \<Rightarrow> Inl IndexError | layer_name # rest \<Rightarrow> dict_get input_maxes layer_name)"

definition cal_scales_step ::
  "model \<Rightarrow> alpha_t \<Rightarrow> (string \<times> string list) \<times> fval list \<Rightarrow> fval list dict \<times> fval list dict
     \<Rightarrow> error + fval list dict \<times> fval list dict" where
  "cal_scales_step m a item acc =
     (case item of ((key, layer_names), input_max) \<Rightarrow>
      case acc of (absorb_scales_info, weight_scales_info) \<Rightarrow>
        bindE (alpha_for a key) (\<lambda>alpha_tmp.
          bindE (mapE (\<lambda>layer_name. reshape_in_channel_to_last layer_name m) layer_names) (\<lambda>weights.
            bindE (case alpha_tmp of
                     Some r \<Rightarrow> cal_scale input_max weights r ''orig''
                   | None \<Rightarrow> bindE (weight_max_of weights) (\<lambda>weight_max. Inl TypeError)) (\<lambda>res.
              case res of
                None \<Rightarrow> Inl TypeError
              | Some scale \<Rightarrow>
                  bindE (mask_set (map f_recip scale) (map (\<lambda>x. x = Fin 0) scale) (Fin 0)) (\<lambda>absorb.
                    Inr (dict_set key absorb absorb_scales_info,
                         fold (\<lambda>layer_name d. dict_set layer_name scale d) layer_names
                           weight_scales_info))))))"

definition cal_scales ::
  "sq_state \<Rightarrow> string list dict \<Rightarrow> fval list dict \<Rightarrow> alpha_t \<Rightarrow> error + fval list dict \<times> fval list dict" where
  "cal_scales st absorb_to_layer input_maxes a =
     bindE (mapE (absorb_to_input_max input_maxes) absorb_to_layer) (\<lambda>absorb_to_input_maxes.
       foldE (cal_scales_step (self_model st) a) (zip absorb_to_layer absorb_to_input_maxes) ([], []))"

text \<open>
  \<open>_adjust_parameters(absorb_to_layer, input_maxes, alpha)\<close>: returns the state with the
  mutated model, the weight scales and the absorb scales. \<open>alpha_tmp\<close> is only handed on to
  the wrapper and is left out: a missing dictionary key and the string \<open>"auto"\<close> have already
  raised in \<open>_cal_scales\<close> when there is a group to adjust.
\<close>

definition adjust_group ::
  "fval list dict \<Rightarrow> fval list dict \<Rightarrow> string \<times> string list \<Rightarrow> sq_state \<Rightarrow> error + sq_state" where
  "adjust_group absorb_scales_info weight_scales_info item st =
     (case item of (key, layer_names) \<Rightarrow>
        bindE (dict_get absorb_scales_info key) (\<lambda>absorb_scale.
          bindE (absorb_scales st key absorb_scale) (\<lambda>st1.
            foldE (\<lambda>layer_name s.
                bindE (dict_get (self_input_mins s) (hd layer_names)) (\<lambda>mn.
                  bindE (dict_get (self_input_maxes s) (hd layer_names)) (\<lambda>mx.
                    bindE (dict_get weight_scales_info layer_name) (\<lambda>scale.
                      scale_layer_weight s layer_name scale (Some (mn, mx))))))
              layer_names st1)))"

definition adjust_parameters ::
  "sq_state \<Rightarrow> string list dict \<Rightarrow> fval list dict \<Rightarrow> alpha_t
     \<Rightarrow> error + sq_state \<times> fval list dict \<times> fval list dict" where
  "adjust_parameters st absorb_to_layer input_maxes a =
     bindE (cal_scales st absorb_to_layer input_maxes a) (\<lambda>(absorb_scales_info, weight_scales_info).
       if absorb_scales_info = [] \<or> weight_scales_info = []
       then Inr (st, weight_scales_info, absorb_scales_info)
       else bindE (foldE (adjust_group absorb_scales_info weight_scales_info) absorb_to_layer st)
              (\<lambda>st'. Inr (st', weight_scales_info, absorb_scales_info)))"

text \<open>
  \<open>revert\<close>: every recorded weight scale and absorb scale is applied again as its reciprocal,
  then both records are cleared.
\<close>

definition revert :: "sq_state \<Rightarrow> error + sq_state" where
  "revert st =
     bindE (foldE (\<lambda>item s. scale_layer_weight s (fst item) (map f_recip (snd item)) None)
              (self_weight_scale_info st) st) (\<lambda>st1.
       bindE (foldE (\<lambda>item s. absorb_scales s (fst item) (map f_recip (snd item)))
                (self_absorb_scales_info st) st1) (\<lambda>st2.
         Inr (st2\<lparr>self_weight_scale_info := [], self_absorb_scales_info := []\<rparr>)))"

section \<open>Calibration\<close>

text \<open>
  The input a forward hook sees: a tensor of rank 1 to 4. \<open>input.reshape(-1, input.shape[-1])\<close>
  makes it the list of its innermost rows; a last dimension of size 0 cannot be reshaped.
\<close>

datatype hook_input = In1 "fval list" | In2 "fval list list" | In3 "fval list list list"
  | In4 "fval list list list list"

definition reshape_last :: "hook_input \<Rightarrow> error + fval list list" where
  "reshape_last inp =
     (let rows = (case inp of In1 r \<Rightarrow> [r] | In2 x \<Rightarrow> x | In3 x \<Rightarrow> concat x
                    | In4 x \<Rightarrow> concat (concat x))
      in if [] \<in> set rows then Inl RuntimeError else Inr rows)"

text \<open>The two dictionaries of a \<open>Calibration\<close> object.\<close>

record calibration =
  cal_input_mins :: "fval list dict"
  cal_input_maxes :: "fval list dict"

text \<open>
  \<open>Calibration._save_input_pc_hook(name)\<close>: the hook \<open>save_input_hook(module, inputs, outputs)\<close>
  on the first input. A 4-D weight makes the hook permute the input, which must then be 4-D
  too. The first observation of a layer stores the per-channel minimum and maximum, a later
  one merges them into the stored ones with the elementwise \<open>torch.min\<close> and \<open>torch.max\<close>.
\<close>

definition save_input_hook :: "string \<Rightarrow> module \<Rightarrow> hook_input \<Rightarrow> calibration \<Rightarrow> error + calibration" where
  "save_input_hook name md inp cal =
     (case weight_of md of
        None \<Rightarrow> Inl AttributeError
      | Some w \<Rightarrow>
          bindE (case w of
                   T4 w4 \<Rightarrow> (case inp of In4 x \<Rightarrow> Inr (In4 (permute_0231 x)) | _ \<Rightarrow> Inl RuntimeError)
                 | _ \<Rightarrow> Inr inp) (\<lambda>inp'.
            bindE (reshape_last inp') (\<lambda>rows.
              bindE (max_dim0 rows) (\<lambda>max_tensor.
                bindE (min_dim0 rows) (\<lambda>min_tensor.
                  if map_of (cal_input_maxes cal) name = None
                  then Inr (cal\<lparr>cal_input_mins := dict_set name min_tensor (cal_input_mins cal),
                               cal_input_maxes := dict_set name max_tensor (cal_input_maxes cal)\<rparr>)
                  else
                    bindE (dict_get (cal_input_mins cal) name) (\<lambda>old_min.
                      bindE (bcast f_min old_min min_tensor) (\<lambda>mn.
                        bindE (dict_get (cal_input_maxes cal) name) (\<lambda>old_max.
                          bindE (bcast f_max old_max max_tensor) (\<lambda>mx.
                            Inr (cal\<lparr>cal_input_mins := dict_set name mn (cal_input_mins cal),
                                     cal_input_maxes := dict_set name mx (cal_input_maxes cal)\<rparr>))))))))))"

text \<open>Feeding the batches that one layer sees, in order, through its hook.\<close>

definition feed_batches :: "string \<Rightarrow> module \<Rightarrow> hook_input list \<Rightarrow> calibration \<Rightarrow> error + calibration" where
  "feed_batches name md batches cal = foldE (save_input_hook name md) batches cal"

text \<open>
  \<open>Calibration.calibrate(calib_iter, op_types)\<close>: both dictionaries start empty, every module
  that is an instance of one of the op types gets the hook, and the model runs on the
  calibration data. The forward passes are torch's; \<open>observe calib_iter\<close> is the sequence of
  module calls they make, each with the module's name and its input (or the exception the
  run raises, such as the failed assertion when there is neither a dataloader nor a
  calibration function).
\<close>

definition is_instance :: "module \<Rightarrow> torch_class list \<Rightarrow> bool" where
  "is_instance md op_types = (case md of Layer l \<Rightarrow> torch_cls l \<in> set op_types | _ \<Rightarrow> False)"

definition calibrate ::
  "model \<Rightarrow> (int \<Rightarrow> error + (string \<times> hook_input) list) \<Rightarrow> int \<Rightarrow> torch_class list
     \<Rightarrow> error + fval list dict \<times> fval list dict" where
  "calibrate m observe calib_iter op_types =
     bindE (observe calib_iter) (\<lambda>calls.
       bindE (foldE (\<lambda>call cal.
                  if map_of (named_modules m) (fst call) \<noteq> None
                     \<and> is_instance (get_module m (fst call)) op_types
                  then save_input_hook (fst call) (get_module m (fst call)) (snd call) cal
                  else Inr cal)
                calls \<lparr>cal_input_mins = [], cal_input_maxes = []\<rparr>) (\<lambda>cal.
         Inr (cal_input_mins cal, cal_input_maxes cal)))"

section \<open>GraphTrace\<close>

definition supported_torch_module_to_aten :: "string dict" where
  "supported_torch_module_to_aten =
     [(''Linear'', ''aten::linear''),
      (''Conv2d'', ''aten::_convolution''),
      (''ConvTranspose2d'', ''aten::_convolution''),
      (''LayerNorm'', ''aten::layer_norm''),
      (''BatchNorm2d'', ''aten::batch_norm''),
      (''GroupNorm'', ''aten::group_norm''),
      (''InstanceNorm2d'', ''aten::instance_norm''),
      (''LlamaRMSNorm'', ''aten::mul''),
      (''T5LayerNorm'', ''aten::mul''),
      (''LPLayerNorm'', ''aten::layer_norm'')]"

text \<open>\<open>_check_valid_conv\<close>: a grouped Conv2d is valid only when it is depthwise.\<close>

definition check_valid_conv :: "module \<Rightarrow> bool" where
  "check_valid_conv md =
     (case md of
        SQLinearWrapper l s i \<Rightarrow> True
      | Layer l \<Rightarrow>
          if torch_cls l \<noteq> Conv2d then True
          else if groups l > 1 then
            (if in_channels l = out_channels l \<and> groups l = in_channels l then True else False)
          else True)"

text \<open>
  \<open>remove_unsupported_layers(model, absorb_to_layer, no_absorb_layers)\<close>: returns the filtered
  dictionary and the extended list. \<open>group_supported\<close> is the inner loop with its \<open>break\<close>.
\<close>

definition type_supported :: "module \<Rightarrow> bool" where
  "type_supported md = (class_name md \<in> set (map fst supported_torch_module_to_aten))"

fun group_supported :: "model \<Rightarrow> string list \<Rightarrow> bool" where
  "group_supported m [] = True"
| "group_supported m (layer_name # rest) =
     (if \<not> type_supported (get_module m layer_name) \<or> \<not> check_valid_conv (get_module m layer_name)
      then False
      else group_supported m rest)"

fun remove_unsupported_loop ::
  "model \<Rightarrow> string list dict \<Rightarrow> string list dict \<times> string list \<Rightarrow> string list dict \<times> string list" where
  "remove_unsupported_loop m [] acc = acc"
| "remove_unsupported_loop m ((key, layers) # items) (res, no_absorb_layers) =
     (if \<not> type_supported (get_module m key)
      then remove_unsupported_loop m items (res, no_absorb_layers @ layers)
      else if group_supported m layers
      then remove_unsupported_loop m items (dict_set key layers res, no_absorb_layers)
      else remove_unsupported_loop m items (res, no_absorb_layers @ layers))"

definition remove_unsupported_layers ::
  "model \<Rightarrow> string list dict \<Rightarrow> string list \<Rightarrow> string list dict \<times> string list" where
  "remove_unsupported_layers m absorb_to_layer no_absorb_layers =
     remove_unsupported_loop m absorb_to_layer ([], no_absorb_layers)"



text \<open>
  The module name of a graph node: \<open>".".join(scopeName.split("/")[-1].split(".")[1:])\<close>.
\<close>

fun split_on :: "char \<Rightarrow> string \<Rightarrow> string list" where
  "split_on c [] = [[]]"
| "split_on c (x # xs) =
     (if x = c then [] # split_on c xs
      else (case split_on c xs of w # ws \<Rightarrow> (x # w) # ws | [] \<Rightarrow> [[x]]))"

fun join_with :: "string \<Rightarrow> string list \<Rightarrow> string" where
  "join_with sep [] = []"
| "join_with sep [w] = w"
| "join_with sep (w # ws) = w @ sep @ join_with sep ws"

definition scope_to_name :: "string \<Rightarrow> string" where
  "scope_to_name scope = join_with ''.'' (tl (split_on CHR ''.'' (last (split_on CHR ''/'' scope))))"

text \<open>
  \<open>get_absorb_to_layer(model, example_input, op_types, skip_unsupported_layers)\<close>. Tracing and the
  walk over the TorchScript graph are torch's and are taken as data: \<open>traced\<close> is \<open>None\<close> when
  \<open>trace\<close> returned \<open>None\<close> (the jit raised), and otherwise lists, for every node of the
  requested op types in graph order, the node's scope name and the scope name of the
  absorbing node that \<open>get_prev_absorb_layer\<close> found for it, if any.
\<close>

fun collect_absorb ::
  "(string \<times> string option) list \<Rightarrow> string list dict \<times> string list \<Rightarrow> string list dict \<times> string list" where
  "collect_absorb [] acc = acc"
| "collect_absorb ((node_scope, None) # rest) (absorb_to_layer, no_absorb_layers) =
     collect_absorb rest (absorb_to_layer, no_absorb_layers @ [scope_to_name node_scope])"
| "collect_absorb ((node_scope, Some absorb_scope) # rest) (absorb_to_layer, no_absorb_layers) =
     (let layer_name = scope_to_name node_scope; absorb_name = scope_to_name absorb_scope in
      if layer_name = [] \<or> absorb_name = [] then collect_absorb rest (absorb_to_layer, no_absorb_layers)
      else case map_of absorb_to_layer absorb_name of
          Some layers \<Rightarrow>
            collect_absorb rest (dict_set absorb_name (layers @ [layer_name]) absorb_to_layer, no_absorb_layers)
        | None \<Rightarrow>
            collect_absorb rest (dict_set absorb_name [layer_name] absorb_to_layer, no_absorb_layers))"

definition get_absorb_to_layer ::
  "model \<Rightarrow> (string \<times> string option) list option \<Rightarrow> bool \<Rightarrow> string list dict option \<times> string list option" where
  "get_absorb_to_layer m traced skip_unsupported_layers =
     (case traced of
        None \<Rightarrow> (None, None)
      | Some pairs \<Rightarrow>
          (case collect_absorb pairs ([], []) of (absorb_to_layer, no_absorb_layers) \<Rightarrow>
             if skip_unsupported_layers
             then (case remove_unsupported_layers m absorb_to_layer no_absorb_layers of
                     (res, no_absorb_layers') \<Rightarrow> (Some res, Some no_absorb_layers'))
             else (Some absorb_to_layer, Some no_absorb_layers)))"

section \<open>TorchSmoothQuant: transform\<close>

text \<open>
  What a call of \<open>transform\<close> gets from outside the modelled code: the outcome of tracing
  (see \<open>get_absorb_to_layer\<close>), whether the model is a \<open>PeftModel\<close>, the module calls of a
  calibration run (see \<open>calibrate\<close>), and what the auto-alpha tuner returns (its \<open>tune()\<close>
  result and its \<open>input_maxes_abs\<close>, \<open>input_mins\<close> and \<open>input_maxes\<close>). The tuner classes are
  registered in \<open>TUNERS\<close> by code that is defined elsewhere in the package. The traced model is
  the model itself (the constructor's default).
\<close>

record env =
  env_traced :: "(string \<times> string option) list option"
  env_is_peft :: bool
  env_observe :: "int \<Rightarrow> error + (string \<times> hook_input) list"
  env_tune :: "error + alpha_t \<times> fval list dict \<times> fval list dict \<times> fval list dict"

text \<open>
  \<open>_check_need_calibration(alpha, percentile, op_types, scales_per_op, calib_iter)\<close>: returns
  the state with the five parameters cached and the answer. The import of \<open>peft\<close> is taken to
  succeed. Reading a cached parameter that was never set raises AttributeError.
\<close>

definition check_need_calibration ::
  "sq_state \<Rightarrow> bool \<Rightarrow> alpha_t \<Rightarrow> int \<Rightarrow> torch_class list \<Rightarrow> bool \<Rightarrow> int \<Rightarrow> error + sq_state \<times> bool" where
  "check_need_calibration st is_peft alpha percentile op_types scales_per_op calib_iter =
     (let is_auto = (alpha = AlphaAuto);
          cached = st\<lparr>self_alpha := Some alpha, self_percentile := Some percentile,
                      self_op_types := Some op_types, self_scales_per_op := Some scales_per_op,
                      self_calib_iter := Some calib_iter\<rparr>
      in
      if length (self_input_maxes st) = 0
      then Inr (cached, if is_auto \<and> \<not> is_peft then False else True)
      else
        case self_percentile st of None \<Rightarrow> Inl AttributeError | Some p \<Rightarrow>
        if p \<noteq> percentile then Inr (cached, True) else
        case self_op_types st of None \<Rightarrow> Inl AttributeError | Some ot \<Rightarrow>
        if ot \<noteq> op_types then Inr (cached, True) else
        case self_scales_per_op st of None \<Rightarrow> Inl AttributeError | Some sp \<Rightarrow>
        if sp \<noteq> scales_per_op then Inr (cached, True) else
        case self_calib_iter st of None \<Rightarrow> Inl AttributeError | Some ci \<Rightarrow>
        if ci \<noteq> calib_iter then Inr (cached, True) else
        case alpha of
          AlphaFloat a \<Rightarrow> Inr (cached, False)
        | _ \<Rightarrow> (case self_alpha st of
                 None \<Rightarrow> Inl AttributeError
               | Some old \<Rightarrow> Inr (cached, if old = AlphaAuto then False else True)))"

text \<open>\<open>_get_all_layer_names\<close>: every Linear module absorbs into itself.\<close>

definition get_all_layer_names :: "model \<Rightarrow> string list dict" where
  "get_all_layer_names m =
     map (\<lambda>p. (fst p, [fst p])) (filter (\<lambda>p. is_instance (snd p) [Linear]) (named_modules m))"

definition dict_del :: "string \<Rightarrow> 'v dict \<Rightarrow> 'v dict" where
  "dict_del k d = filter (\<lambda>p. fst p \<noteq> k) d"

text \<open>
  The loop over \<open>group_modules\<close>: the layers of a group leave the dictionary and the group is
  entered under its first layer.
\<close>

fun merge_groups :: "string list dict \<Rightarrow> string list dict \<Rightarrow> error + string list dict" where
  "merge_groups [] self_absorb_layers = Inr self_absorb_layers"
| "merge_groups ((k, v) # rest) self_absorb_layers =
     (case v of
        [] \<Rightarrow> Inl IndexError
      | v0 # vs \<Rightarrow> merge_groups rest (dict_set v0 v (fold dict_del v self_absorb_layers)))"

text \<open>
  \<open>_parse_absorb_to_layers(op_types, folding)\<close> (with \<open>is_folding\<close> for \<open>folding\<close>): returns the state and the returned dictionary
  (or \<open>None\<close>). \<open>_trace\<close> only unpacks \<open>get_absorb_to_layer\<close> and logs.
\<close>

definition parse_absorb_to_layers ::
  "sq_state \<Rightarrow> env \<Rightarrow> torch_class list \<Rightarrow> bool \<Rightarrow> error + sq_state \<times> string list dict option" where
  "parse_absorb_to_layers st e op_types is_folding =
     bindE (if self_insert_mul st
            then (case fst (get_absorb_to_layer (self_model st) (env_traced e) False) of
                    None \<Rightarrow> Inr (get_all_layer_names (self_model st))
                  | Some group_modules \<Rightarrow>
                      merge_groups group_modules (get_all_layer_names (self_model st)))
            else Inr []) (\<lambda>self_absorb_layers.
       let traced = get_absorb_to_layer (self_model st) (env_traced e) True;
           st1 = (if self_allow_absorb st then st\<lparr>self_absorb_to_layer := fst traced\<rparr> else st)
       in
       if self_allow_absorb st \<and> fst traced = None \<and> snd traced = None then Inr (st1, None)
       else
         case self_absorb_to_layer st1 of
           None \<Rightarrow> Inl AttributeError
         | Some atl \<Rightarrow>
             let remaining = fold (\<lambda>item sal. fold dict_del (snd item) sal) atl self_absorb_layers;
                 atl' = fold (\<lambda>item d. dict_set (fst item) (snd item) d) remaining atl
             in
             if \<not> is_folding \<and> self_need_calibration st1 then
               (if length (self_input_mins st1) = 0 then
                  bindE (calibrate (self_model st1) (env_observe e) 1 op_types) (\<lambda>(mins, maxes).
                    let atl'' = filter (\<lambda>item. map_of mins (fst item) \<noteq> None) atl' in
                    Inr (st1\<lparr>self_input_mins := mins, self_input_maxes := maxes,
                             self_absorb_to_layer := Some atl''\<rparr>, Some atl''))
                else Inl UnboundLocalError)
             else Inr (st1\<lparr>self_absorb_to_layer := Some atl'\<rparr>, Some atl'))"

text \<open>
  \<open>input_maxes_abs[key] = torch.max(torch.abs(input_mins[key]), torch.abs(input_maxes[key]))\<close>
  for every key of \<open>input_mins\<close>.
\<close>

definition abs_max_dict :: "fval list dict \<Rightarrow> fval list dict \<Rightarrow> error + fval list dict" where
  "abs_max_dict mins maxes =
     mapE (\<lambda>item. bindE (dict_get maxes (fst item)) (\<lambda>mx.
             bindE (bcast f_max (map f_abs (snd item)) (map f_abs mx)) (\<lambda>v. Inr (fst item, v)))) mins"

text \<open>
  \<open>transform(alpha, folding, percentile, op_types, scales_per_op, calib_iter, ...)\<close> on a torch
  module, with \<open>is_folding\<close> for \<open>folding\<close>; the returned model is \<open>self_model\<close> of the returned state. A negative float alpha is
  reset to 0. The block that fills \<open>self.self_absorb_layers\<close> before
  \<open>_parse_absorb_to_layers\<close> writes an attribute nothing else reads and is left out, as are the
  two forward passes of the equivalence check, which only log. The branch for
  \<open>record_max_info\<close> is not modelled.
\<close>

definition transform ::
  "sq_state \<Rightarrow> env \<Rightarrow> alpha_t \<Rightarrow> bool \<Rightarrow> int \<Rightarrow> torch_class list \<Rightarrow> bool \<Rightarrow> int \<Rightarrow> error + sq_state" where
  "transform st e alpha0 is_folding percentile op_types scales_per_op calib_iter =
     (let alpha = (case alpha0 of AlphaFloat a \<Rightarrow> if a < 0 then AlphaFloat 0 else alpha0 | _ \<Rightarrow> alpha0);
          st1 = st\<lparr>self_insert_mul := \<not> is_folding, self_allow_absorb := is_folding\<rparr>
      in
      bindE (revert st1) (\<lambda>st2.
      bindE (check_need_calibration st2 (env_is_peft e) alpha percentile op_types scales_per_op calib_iter)
        (\<lambda>(st3, need).
      let st4 = st3\<lparr>self_need_calibration := need\<rparr> in
      bindE (parse_absorb_to_layers st4 e op_types is_folding) (\<lambda>(st5, atl).
      let st6 = st5\<lparr>self_absorb_to_layer := atl\<rparr> in
      bindE (if length (self_input_mins st6) \<noteq> 0
             then bindE (abs_max_dict (self_input_mins st6) (self_input_maxes st6)) (\<lambda>d.
                    Inr (d, if self_q_func st6 then st6\<lparr>self_need_calibration := False\<rparr> else st6))
             else Inr (self_input_maxes_abs st6, st6)) (\<lambda>(input_maxes_abs, st7).
      case atl of
        None \<Rightarrow> Inr st7
      | Some absorb_to_layer \<Rightarrow>
          bindE (if alpha = AlphaAuto then
                   bindE (env_tune e) (\<lambda>(tuned, maxes_abs, mins, maxes).
                     Inr (maxes_abs, st7\<lparr>self_alpha := Some tuned, self_input_mins := mins,
                                          self_input_maxes := maxes\<rparr>))
                 else if self_need_calibration st7 then
                   bindE (calibrate (self_model st7) (env_observe e) calib_iter op_types) (\<lambda>(mins, maxes).
                     bindE (abs_max_dict mins maxes) (\<lambda>d.
                       Inr (d, st7\<lparr>self_input_mins := mins, self_input_maxes := maxes\<rparr>)))
                 else Inr (input_maxes_abs, st7)) (\<lambda>(input_maxes_abs, st8).
          if self_record_max_info st8 then Inl NotModelled
          else
            case self_alpha st8 of
              None \<Rightarrow> Inl AttributeError
            | Some a \<Rightarrow>
                bindE (adjust_parameters st8 absorb_to_layer input_maxes_abs a)
                  (\<lambda>(st9, weight_scales_info, absorb_scales_info).
                    Inr (st9\<lparr>self_weight_scale_info := weight_scales_info,
                             self_absorb_scales_info := absorb_scales_info\<rparr>))))))))"


section \<open>Calibration: the hook as a merge of batch statistics\<close>

text \<open>
  Notions for reasoning about the hook. \<open>pick\<close>, \<open>compat\<close> and \<open>blen\<close> describe broadcasting by
  indices: which element a position reads, which sizes go together, and the size of the
  result. \<open>to_opt\<close> forgets which exception was raised; \<open>bo\<close> is \<open>bcast\<close> up to that.
\<close>

definition pick :: "'a list \<Rightarrow> nat \<Rightarrow> 'a" where
  "pick x i = (if length x = 1 then x ! 0 else x ! i)"

definition compat :: "nat \<Rightarrow> nat \<Rightarrow> bool" where
  "compat n k = (n = k \<or> k = 1 \<or> n = 1)"

definition blen :: "nat \<Rightarrow> nat \<Rightarrow> nat" where
  "blen n k = (if n = 1 then k else n)"

definition to_opt :: "error + 'a \<Rightarrow> 'a option" where
  "to_opt r = (case r of Inl e \<Rightarrow> None | Inr x \<Rightarrow> Some x)"

definition bo :: "(fval \<Rightarrow> fval \<Rightarrow> fval) \<Rightarrow> fval list \<Rightarrow> fval list \<Rightarrow> fval list option" where
  "bo f x y = (case bcast f x y of Inl e \<Rightarrow> None | Inr r \<Rightarrow> Some r)"

text \<open>
  \<open>batch_stats\<close> is the first half of \<open>save_input_hook\<close> (the per-channel maximum and minimum
  of one input), \<open>merge_into\<close> the second half (storing or merging them), and \<open>hook_step\<close> the
  hook on a state that may already have failed.
\<close>

definition batch_stats :: "module \<Rightarrow> hook_input \<Rightarrow> (fval list \<times> fval list) option" where
  "batch_stats md inp =
     (case weight_of md of
        None \<Rightarrow> None
      | Some w \<Rightarrow>
          to_opt (bindE (case w of
                   T4 w4 \<Rightarrow> (case inp of In4 x \<Rightarrow> Inr (In4 (permute_0231 x)) | _ \<Rightarrow> Inl RuntimeError)
                 | _ \<Rightarrow> Inr inp) (\<lambda>inp'.
            bindE (reshape_last inp') (\<lambda>rows.
              bindE (max_dim0 rows) (\<lambda>max_tensor.
                bindE (min_dim0 rows) (\<lambda>min_tensor. Inr (max_tensor, min_tensor)))))))"

definition merge_into :: "string \<Rightarrow> fval list \<times> fval list \<Rightarrow> calibration \<Rightarrow> calibration option" where
  "merge_into name s cal =
     (if map_of (cal_input_maxes cal) name = None
      then Some (cal\<lparr>cal_input_mins := dict_set name (snd s) (cal_input_mins cal),
                    cal_input_maxes := dict_set name (fst s) (cal_input_maxes cal)\<rparr>)
      else
        case map_of (cal_input_mins cal) name of None \<Rightarrow> None | Some old_min \<Rightarrow>
        case bo f_min old_min (snd s) of None \<Rightarrow> None | Some mn \<Rightarrow>
        case map_of (cal_input_maxes cal) name of None \<Rightarrow> None | Some old_max \<Rightarrow>
        case bo f_max old_max (fst s) of None \<Rightarrow> None | Some mx \<Rightarrow>
          Some (cal\<lparr>cal_input_mins := dict_set name mn (cal_input_mins cal),
                   cal_input_maxes := dict_set name mx (cal_input_maxes cal)\<rparr>))"

definition hook_step :: "string \<Rightarrow> module \<Rightarrow> hook_input \<Rightarrow> calibration option \<Rightarrow> calibration option" where
  "hook_step name md inp c = Option.bind c (\<lambda>cal. to_opt (save_input_hook name md inp cal))"

section \<open>A LayerNorm followed by a Linear\<close>

text \<open>
  The model of the end-to-end scenario: a container whose submodules are the LayerNorm \<open>ln\<close>
  and the Linear \<open>fc\<close>, and a \<open>TorchSmoothQuant\<close> object for it in fold mode that holds the
  calibration minima and maxima of the input of \<open>fc\<close>.
\<close>

definition container :: layer where
  "container =
     \<lparr>cls_name = ''Sequential'', torch_cls = OtherClass, weight = None, bias = None, affine = False,
      num_features = None, groups = 0, in_channels = 0, out_channels = 0\<rparr>"

definition ln_fc_model :: "fval list \<Rightarrow> fval list \<Rightarrow> fval list list \<Rightarrow> fval list option \<Rightarrow> model" where
  "ln_fc_model g b W c =
     \<lparr>root = Layer container,
      submodules = [(''ln'', Layer (layer_norm_layer g b)), (''fc'', Layer (linear_layer W c))]\<rparr>"

definition fold_state :: "model \<Rightarrow> fval list dict \<Rightarrow> fval list dict \<Rightarrow> sq_state" where
  "fold_state m mins maxes =
     (TorchSmoothQuant_init m False True False)\<lparr>self_input_mins := mins, self_input_maxes := maxes\<rparr>"

text \<open>
  The surroundings of a \<open>transform\<close> call in which tracing fails: no trace, not a PEFT model, a
  calibration run that makes the given module calls, and no auto-alpha tuner.
\<close>

definition no_trace_env :: "(string \<times> hook_input) list \<Rightarrow> env" where
  "no_trace_env calls =
     \<lparr>env_traced = None, env_is_peft = False, env_observe = (\<lambda>n. Inr calls),
      env_tune = Inl NotModelled\<rparr>"

section \<open>The random tuning strategy\<close>











section \<open>Evaluation of the smooth-quant definitions\<close>

text \<open>The definitions to unfold when a transform is evaluated on a concrete model.\<close>

lemmas sq_defs = adjust_parameters_def cal_scales_def cal_scales_step_def absorb_to_input_max_def
  adjust_group_def absorb_scales_def absorb_layer_def absorb_weight_bias_def absorb_bias_weight_def
  scale_layer_weight_def reshape_in_channel_to_last_def reshape_scale_as_weight_def weight_of_def
  get_module_def set_module_def mutate_module_def dict_get_def alpha_for_def imul_opt_def imul_bias_def
  along_last_def bc_def bcast_def bcast_inplace_def mask_set_def bindE_def
  cal_scale_def cal_scale_orig_def weight_max_of_def cat_dim0_def max_dim0_def min_dim0_def f_recip_def
  ln_fc_model_def fold_state_def TorchSmoothQuant_init_def layer_norm_layer_def linear_layer_def container_def
  revert_def transform_def check_need_calibration_def parse_absorb_to_layers_def get_absorb_to_layer_def
  get_all_layer_names_def named_modules_def is_instance_def calibrate_def save_input_hook_def reshape_last_def
  abs_max_dict_def no_trace_env_def dict_del_def SQLinearWrapper_init_def calculate_qparams_def update_sq_linear_def

lemma sqrt4: "(4::real) powr (1/2) = 2"
  by (simp add: powr_half_sqrt)
lemma sqrt2: "(2::real) powr (1/2) = sqrt 2"
  by (simp add: powr_half_sqrt)
lemma clip_sqrt2: "max (sqrt 2) (1 / 100000) = sqrt 2"
proof -
  have "(1::real) \<le> sqrt 2" by (rule real_sqrt_ge_one) simp
  then have "(1::real) / 100000 \<le> sqrt 2" by linarith
  then show ?thesis by (rule max_absorb1)
qed


section \<open>Properties of the scale computation\<close>

lemma map2_nth_eq:
  "length xs = length ys \<Longrightarrow> (\<And>i. i < length xs \<Longrightarrow> f (xs ! i) (ys ! i) = g (xs ! i) (ys ! i)) \<Longrightarrow> map2 f xs ys = map2 g xs ys"
  by (rule nth_equalityI) auto

lemma cal_scale_agree:
  assumes "weight_max_of weights = Inr wm" "input_max \<noteq> []" "length wm = length input_max"
  shows "cal_scale_orig input_max weights alpha = Inr (map2 (scale_sizes_agree alpha) input_max wm)"
  using assms
  apply (simp add: cal_scale_orig_def bindE_def bcast_def mask_set_def Let_def)
  apply (rule nth_equalityI)
   apply simp
  apply (simp add: scale_sizes_agree_def clipped_ratio_def)
  done

lemma cal_scale_differ:
  assumes "weight_max_of weights = Inr wm" "input_max \<noteq> []" "length wm \<noteq> length input_max" "length wm = 1"
  shows "cal_scale_orig input_max weights alpha = Inr (map (\<lambda>x. scale_sizes_differ alpha x (hd wm)) input_max)"
  using assms
  apply (simp add: cal_scale_orig_def bindE_def bcast_def mask_set_def Let_def)
  apply (rule nth_equalityI)
   apply simp
  apply (cases wm; simp add: scale_sizes_differ_def clipped_ratio_def)
  done

lemma cal_scale_error:
  assumes "weight_max_of weights = Inr wm" "input_max \<noteq> []" "length wm \<noteq> length input_max" "length wm \<noteq> 1"
  shows "cal_scale_orig input_max weights alpha = (if length input_max = 1 then Inl IndexError else Inl RuntimeError)"
  using assms
  by (auto simp add: cal_scale_orig_def bindE_def bcast_def mask_set_def Let_def)









text \<open>
  Claim C3, as amended. Whenever the weights concatenate to a tensor with a column-wise
  maximum and the input max is not empty, \<open>cal_scale\<close> returns the clipped ratio of the powers,
  forced to 1 on channels whose activation power is zero; zero weight-power channels are then
  forced to 0 exactly when the two power tensors have the \<^emph>\<open>same\<close> size. When the sizes differ and
  the weight power has one element, it is broadcast and no channel is forced to 0; any other
  pair of sizes raises.
\<close>

theorem cal_scale_orig_characterised:
  assumes "weight_max_of weights = Inr weight_max" and "input_max \<noteq> []"
  shows "cal_scale_orig input_max weights alpha =
     (if length weight_max = length input_max
      then Inr (map2 (scale_sizes_agree alpha) input_max weight_max)
      else if length weight_max = 1
      then Inr (map (\<lambda>x. scale_sizes_differ alpha x (hd weight_max)) input_max)
      else if length input_max = 1 then Inl IndexError else Inl RuntimeError)"
  using cal_scale_agree[OF assms, of alpha] cal_scale_differ[OF assms, of alpha]
    cal_scale_error[OF assms, of alpha]
  by simp

theorem cal_scale_orig_characterised_witness:
  "weight_max_of [[[Fin 1, Fin 0]]] = Inr [Fin 1, Fin 0] \<and>
   cal_scale_orig [Fin 0, Fin 1] [[[Fin 1, Fin 0]]] (1 / 2) = Inr [Fin 1, Fin 0]"
proof -
  have h1: "weight_max_of [[[Fin 1, Fin 0]]] = Inr [Fin 1, Fin 0]"
    by (simp add: weight_max_of_def cat_dim0_def max_dim0_def bindE_def)
  have h2: "[Fin 0, Fin 1] \<noteq> []" by simp
  from cal_scale_orig_characterised[OF h1 h2, of "1 / 2"] h1 show ?thesis
    by (simp add: scale_sizes_agree_def clipped_ratio_def)
qed

text \<open>
  Claim C3 as stated fails in both directions: with equal sizes the zero weight-power channel
  is forced to 0, and with different sizes (two input channels against one broadcast weight
  power, as for a depthwise convolution) it is not: the scale stays infinite.
\<close>

theorem cal_scale_sizes_counterexample:
  "weight_max_of [[[Fin 0]]] = Inr [Fin 0] \<and>
   cal_scale_orig [Fin 1] [[[Fin 0]]] (1 / 2) = Inr [Fin 0] \<and>
   cal_scale_orig [Fin 1, Fin 1] [[[Fin 0]]] (1 / 2) = Inr [PInf, PInf]"
  by (simp add: cal_scale_orig_def weight_max_of_def cat_dim0_def max_dim0_def bindE_def
      bcast_def mask_set_def)

section \<open>The insert-mode wrapper computes what the wrapped Linear computed\<close>

lemma mul_div_cancel_pos:
  assumes "fin_pos s"
  shows "f_mul (f_mul x s) (f_div w s) = f_mul x w"
proof -
  from assms obtain r where r: "s = Fin r" "0 < r" by (cases s) (auto simp: fin_pos_def)
  show ?thesis
    by (cases x; cases w) (use r in \<open>auto simp: zero_less_mult_iff mult_less_0_iff zero_less_divide_iff divide_less_0_iff\<close>)
qed

lemma dot_scaled:
  assumes "length s = length X" "length row = length X" "\<forall>v \<in> set s. fin_pos v"
  shows "dot (map2 f_mul X s) (map2 f_div row s) = dot X row"
  using assms
proof (induction X arbitrary: s row)
  case Nil
  then show ?case by (simp add: dot_def)
next
  case (Cons a X)
  then obtain b s' c row' where "s = b # s'" "row = c # row'"
    by (cases s; cases row) auto
  with Cons show ?case
    by (simp add: dot_def mul_div_cancel_pos)
qed

lemma mapE_Inr:
  "(\<And>x. x \<in> set xs \<Longrightarrow> f x = Inr (g x)) \<Longrightarrow> mapE f xs = Inr (map g xs)"
  by (induction xs) (simp_all add: bindE_def)

text \<open>
  Claim C5. For a Linear module with weight \<open>W\<close>, a strictly positive per-channel scale \<open>s\<close> and
  an input \<open>X\<close> of the width of the weight, the \<open>SQLinearWrapper\<close> built from the module and the
  scale (its constructor divides the weight by the scale, its forward multiplies the input by
  the scale) returns on \<open>X\<close> what the unwrapped module returns, in exact arithmetic.
\<close>

theorem sq_linear_wrapper_forward:
  assumes "torch_cls l = Linear" and "weight l = Some (T2 W)"
    and "\<forall>row \<in> set W. length row = length X"
    and "length s = length X"
    and "\<forall>v \<in> set s. fin_pos v"
    and "SQLinearWrapper_init l s input_minmax = Inr wrapper"
  shows "forward normalise wrapper X = forward normalise (Layer l) X"
proof -
  have rows: "\<And>row. row \<in> set W \<Longrightarrow> bc True f_div row s = Inr (map2 f_div row s)"
    using assms(3,4) by (simp add: bc_def bcast_inplace_def bcast_def)
  have upd: "update_sq_linear l s = Inr (l\<lparr>weight := Some (T2 (map (\<lambda>row. map2 f_div row s) W))\<rparr>)"
    using assms(2) mapE_Inr[of W "\<lambda>row. bc True f_div row s" "\<lambda>row. map2 f_div row s", OF rows]
    by (simp add: update_sq_linear_def bindE_def along_last_def)
  from assms(6) upd have w: "wrapper = SQLinearWrapper (l\<lparr>weight := Some (T2 (map (\<lambda>row. map2 f_div row s) W))\<rparr>) s False"
    by (auto simp: SQLinearWrapper_init_def bindE_def split: sum.splits)
  have dots: "map (dot (map2 f_mul X s)) (map (\<lambda>row. map2 f_div row s) W) = map (dot X) W"
    using assms(3,4,5) by (auto simp: dot_scaled)
  have "forward normalise wrapper X = linear_forward (l\<lparr>weight := Some (T2 (map (\<lambda>row. map2 f_div row s) W))\<rparr>) (map2 f_mul X s)"
    using assms(1,4) by (simp add: w bcast_def bindE_def layer_forward_def)
  also have "\<dots> = linear_forward l X"
    using assms(3) by (simp add: linear_forward_def assms(2) dots split: option.splits del: map_map)
  finally show ?thesis using assms(1) by (simp add: layer_forward_def)
qed

theorem sq_linear_wrapper_forward_witness:
  "SQLinearWrapper_init (linear_layer [[Fin 1, Fin 2]] (Some [Fin 1])) [Fin 2, Fin 4]
       (Some ([Fin 0, Fin 0], [Fin 1, Fin 1]))
     = Inr (SQLinearWrapper (linear_layer [[Fin (1 / 2), Fin (1 / 2)]] (Some [Fin 1])) [Fin 2, Fin 4] False) \<and>
   forward id (SQLinearWrapper (linear_layer [[Fin (1 / 2), Fin (1 / 2)]] (Some [Fin 1])) [Fin 2, Fin 4] False)
       [Fin 3, Fin 5] = Inr [Fin 14] \<and>
   forward id (Layer (linear_layer [[Fin 1, Fin 2]] (Some [Fin 1]))) [Fin 3, Fin 5] = Inr [Fin 14]"
proof -
  let ?l = "linear_layer [[Fin 1, Fin 2]] (Some [Fin 1])"
  let ?wr = "SQLinearWrapper (linear_layer [[Fin (1 / 2), Fin (1 / 2)]] (Some [Fin 1])) [Fin 2, Fin 4] False"
  have h1: "torch_cls ?l = Linear" by (simp add: linear_layer_def)
  have h2: "weight ?l = Some (T2 [[Fin 1, Fin 2]])" by (simp add: linear_layer_def)
  have h3: "\<forall>row \<in> set [[Fin 1, Fin 2]]. length row = length [Fin 3, Fin 5]" by simp
  have h4: "length [Fin 2, Fin 4] = length [Fin 3, Fin 5]" by simp
  have h5: "\<forall>v \<in> set [Fin 2, Fin 4]. fin_pos v" by (simp add: fin_pos_def)
  have h6: "SQLinearWrapper_init ?l [Fin 2, Fin 4] (Some ([Fin 0, Fin 0], [Fin 1, Fin 1])) = Inr ?wr"
    by (simp add: SQLinearWrapper_init_def calculate_qparams_def update_sq_linear_def bindE_def
        bcast_def bcast_inplace_def bc_def along_last_def linear_layer_def)
  have h7: "forward id (Layer ?l) [Fin 3, Fin 5] = Inr [Fin 14]"
    by (simp add: layer_forward_def linear_forward_def linear_layer_def dot_def)
  from sq_linear_wrapper_forward[OF h1 h2 h3 h4 h5 h6, of id] h6 h7 show ?thesis by simp
qed

section \<open>The first call of the calibration check\<close>

text \<open>
  Claim C10. On the first call, when no input statistics have been collected
  (\<open>input_maxes\<close> is empty), \<open>_check_need_calibration\<close> caches alpha, percentile, op_types,
  scales_per_op and calib_iter and returns False exactly when alpha is \<open>"auto"\<close> and the model
  is not a PEFT model; in every other case it returns True.
\<close>

theorem check_need_calibration_first_call:
  assumes "self_input_maxes st = []"
  shows "check_need_calibration st is_peft alpha percentile op_types scales_per_op calib_iter =
     Inr (st\<lparr>self_alpha := Some alpha, self_percentile := Some percentile,
              self_op_types := Some op_types, self_scales_per_op := Some scales_per_op,
              self_calib_iter := Some calib_iter\<rparr>,
          \<not> (alpha = AlphaAuto \<and> \<not> is_peft))"
  using assms by (simp add: check_need_calibration_def Let_def)

theorem check_need_calibration_first_call_witness:
  "self_input_maxes (TorchSmoothQuant_init (ln_fc_model [] [] [] None) False True False) = [] \<and>
   snd (projr (check_need_calibration (TorchSmoothQuant_init (ln_fc_model [] [] [] None) False True False)
          False AlphaAuto 100 [Linear, Conv2d] False 100)) = False \<and>
   snd (projr (check_need_calibration (TorchSmoothQuant_init (ln_fc_model [] [] [] None) False True False)
          True AlphaAuto 100 [Linear, Conv2d] False 100)) = True \<and>
   snd (projr (check_need_calibration (TorchSmoothQuant_init (ln_fc_model [] [] [] None) False True False)
          False (AlphaFloat (1 / 2)) 100 [Linear, Conv2d] False 100)) = True \<and>
   self_calib_iter (fst (projr (check_need_calibration
          (TorchSmoothQuant_init (ln_fc_model [] [] [] None) False True False)
          False AlphaAuto 100 [Linear, Conv2d] False 100))) = Some 100"
proof -
  let ?st = "TorchSmoothQuant_init (ln_fc_model [] [] [] None) False True False"
  have h: "self_input_maxes ?st = []" by (simp add: TorchSmoothQuant_init_def)
  show ?thesis
    using h check_need_calibration_first_call[OF h, of False AlphaAuto 100 "[Linear, Conv2d]" False 100]
      check_need_calibration_first_call[OF h, of True AlphaAuto 100 "[Linear, Conv2d]" False 100]
      check_need_calibration_first_call[OF h, of False "AlphaFloat (1 / 2)" 100 "[Linear, Conv2d]" False 100]
    by simp
qed

section \<open>Filtering the absorb-to-layer map\<close>








section \<open>Calibration does not depend on the order of the batches\<close>

lemma f_max_commute: "f_max a b = f_max b a"
  by (cases a; cases b) (simp_all add: max.commute)

lemma f_max_assoc: "f_max (f_max a b) c = f_max a (f_max b c)"
  by (cases a; cases b; cases c) (simp_all add: max.assoc)

lemma f_min_commute: "f_min a b = f_min b a"
  by (cases a; cases b) (simp_all add: min.commute)

lemma f_min_assoc: "f_min (f_min a b) c = f_min a (f_min b c)"
  by (cases a; cases b; cases c) (simp_all add: min.assoc)

lemma hd_single: "length y = Suc 0 \<Longrightarrow> hd y = y ! 0"
  by (cases y) auto

lemma bcast_pick:
  "bcast f x y =
     (if compat (length x) (length y)
      then Inr (map (\<lambda>i. f (pick x i) (pick y i)) [0..<blen (length x) (length y)])
      else Inl RuntimeError)"
proof (cases "length x = length y")
  case True
  have "map2 f x y = map (\<lambda>i. f (pick x i) (pick y i)) [0..<length x]"
    using True by (intro nth_equalityI) (auto simp: pick_def)
  with True show ?thesis by (auto simp: bcast_def compat_def blen_def)
next
  case False
  show ?thesis
  proof (cases "length y = 1")
    case True
    have "map (\<lambda>v. f v (hd y)) x = map (\<lambda>i. f (pick x i) (pick y i)) [0..<length x]"
      using True False by (intro nth_equalityI) (auto simp: pick_def hd_single)
    with True False show ?thesis by (auto simp: bcast_def compat_def blen_def)
  next
    case ny: False
    show ?thesis
    proof (cases "length x = 1")
      case True
      have "map (f (hd x)) y = map (\<lambda>i. f (pick x i) (pick y i)) [0..<length y]"
        using True False ny by (intro nth_equalityI) (auto simp: pick_def hd_single)
      with True False ny show ?thesis by (auto simp: bcast_def compat_def blen_def)
    next
      case False2: False
      with False ny show ?thesis by (auto simp: bcast_def compat_def)
    qed
  qed
qed

lemma bo_pick:
  "bo f x y = (if compat (length x) (length y)
      then Some (map (\<lambda>i. f (pick x i) (pick y i)) [0..<blen (length x) (length y)]) else None)"
  by (simp add: bo_def bcast_pick)

lemma bo_commute:
  assumes "\<And>a b. f a b = f b a"
  shows "bo f x y = bo f y x"
proof -
  have "compat (length x) (length y) \<Longrightarrow> blen (length x) (length y) = blen (length y) (length x)"
    by (auto simp: compat_def blen_def)
  moreover have "compat (length x) (length y) = compat (length y) (length x)"
    by (auto simp: compat_def)
  ultimately show ?thesis
    using assms by (auto simp: bo_pick)
qed

lemma pick_map_upt:
  "i < n \<Longrightarrow> pick (map g [0..<n]) i = (if n = 1 then g 0 else g i)"
  by (auto simp: pick_def)

lemma bo_right_commute:
  assumes comm: "\<And>a b. f a b = f b a" and assoc: "\<And>a b c. f (f a b) c = f a (f b c)"
  shows "Option.bind (bo f x y) (\<lambda>a. bo f a z) = Option.bind (bo f x z) (\<lambda>a. bo f a y)"
proof -
  let ?lx = "length x" and ?ly = "length y" and ?lz = "length z"
  have rc: "\<And>a b c. f (f a b) c = f (f a c) b"
    by (metis comm assoc)
  have c_iff: "(compat ?lx ?ly \<and> compat (blen ?lx ?ly) ?lz) = (compat ?lx ?lz \<and> compat (blen ?lx ?lz) ?ly)"
    by (auto simp: compat_def blen_def)
  show ?thesis
  proof (cases "compat ?lx ?ly \<and> compat (blen ?lx ?ly) ?lz")
    case False
    with c_iff show ?thesis by (auto simp: bo_pick)
  next
    case True
    with c_iff have T2: "compat ?lx ?lz" "compat (blen ?lx ?lz) ?ly" by simp_all
    from True have T1: "compat ?lx ?ly" "compat (blen ?lx ?ly) ?lz" by simp_all
    have len: "blen (blen ?lx ?ly) ?lz = blen (blen ?lx ?lz) ?ly"
      using T1 T2 by (auto simp: compat_def blen_def)
    let ?n = "blen (blen ?lx ?ly) ?lz"
    have lhs: "Option.bind (bo f x y) (\<lambda>a. bo f a z) =
        Some (map (\<lambda>i. f (pick (map (\<lambda>i. f (pick x i) (pick y i)) [0..<blen ?lx ?ly]) i) (pick z i)) [0..<?n])"
      using T1 by (simp add: bo_pick)
    have rhs: "Option.bind (bo f x z) (\<lambda>a. bo f a y) =
        Some (map (\<lambda>i. f (pick (map (\<lambda>i. f (pick x i) (pick z i)) [0..<blen ?lx ?lz]) i) (pick y i)) [0..<?n])"
      using T2 len by (simp add: bo_pick)
    have "\<And>i. i < ?n \<Longrightarrow>
        f (pick (map (\<lambda>i. f (pick x i) (pick y i)) [0..<blen ?lx ?ly]) i) (pick z i) =
        f (pick (map (\<lambda>i. f (pick x i) (pick z i)) [0..<blen ?lx ?lz]) i) (pick y i)"
    proof -
      fix i assume i: "i < ?n"
      have a: "pick (map (\<lambda>i. f (pick x i) (pick y i)) [0..<blen ?lx ?ly]) i = f (pick x i) (pick y i)"
        using i T1 by (auto simp: pick_def compat_def blen_def split: if_splits)
      have b: "pick (map (\<lambda>i. f (pick x i) (pick z i)) [0..<blen ?lx ?lz]) i = f (pick x i) (pick z i)"
        using i len T2 by (auto simp: pick_def compat_def blen_def split: if_splits)
      show "f (pick (map (\<lambda>i. f (pick x i) (pick y i)) [0..<blen ?lx ?ly]) i) (pick z i) =
        f (pick (map (\<lambda>i. f (pick x i) (pick z i)) [0..<blen ?lx ?lz]) i) (pick y i)"
        unfolding a b by (rule rc)
    qed
    then show ?thesis unfolding lhs rhs by simp
  qed
qed

lemma hook_as_merge:
  "to_opt (save_input_hook name md inp cal) = Option.bind (batch_stats md inp) (\<lambda>s. merge_into name s cal)"
  by (auto simp: save_input_hook_def batch_stats_def merge_into_def to_opt_def bindE_def bo_def dict_get_def
      split: option.splits sum.splits tensor.splits hook_input.splits)

lemma map_of_dict_set: "map_of (dict_set k v d) k' = (if k' = k then Some v else map_of d k')"
  by (induction d) auto

lemma dict_set_twice: "dict_set k v (dict_set k u d) = dict_set k v d"
  by (induction d) auto

lemma merge_into_twice:
  assumes "map_of (cal_input_maxes cal) name = Some old_max"
    and "map_of (cal_input_mins cal) name = Some old_min"
  shows "Option.bind (merge_into name s1 cal) (merge_into name s2) =
     Option.bind (Option.bind (bo f_min old_min (snd s1)) (\<lambda>a. bo f_min a (snd s2))) (\<lambda>mn.
       Option.bind (Option.bind (bo f_max old_max (fst s1)) (\<lambda>b. bo f_max b (fst s2))) (\<lambda>mx.
         Some (cal\<lparr>cal_input_mins := dict_set name mn (cal_input_mins cal),
                  cal_input_maxes := dict_set name mx (cal_input_maxes cal)\<rparr>)))"
proof (cases "bo f_min old_min (snd s1)")
  case None
  then show ?thesis using assms by (simp add: merge_into_def)
next
  case mn: (Some a)
  show ?thesis
  proof (cases "bo f_max old_max (fst s1)")
    case None
    then show ?thesis using assms mn by (simp add: merge_into_def split: Option.bind_splits)
  next
    case mx: (Some b)
    have first: "merge_into name s1 cal =
        Some (cal\<lparr>cal_input_mins := dict_set name a (cal_input_mins cal),
                 cal_input_maxes := dict_set name b (cal_input_maxes cal)\<rparr>)"
      using assms mn mx by (simp add: merge_into_def)
    show ?thesis
      unfolding first mn mx
      by (simp add: merge_into_def map_of_dict_set dict_set_twice split: option.splits)
  qed
qed

lemma merge_into_commute:
  "Option.bind (merge_into name s1 cal) (merge_into name s2) =
   Option.bind (merge_into name s2 cal) (merge_into name s1)"
proof (cases "map_of (cal_input_maxes cal) name")
  case None
  have "bo f_min (snd s1) (snd s2) = bo f_min (snd s2) (snd s1)"
    by (rule bo_commute) (rule f_min_commute)
  moreover have "bo f_max (fst s1) (fst s2) = bo f_max (fst s2) (fst s1)"
    by (rule bo_commute) (rule f_max_commute)
  ultimately show ?thesis
    using None by (simp add: merge_into_def map_of_dict_set dict_set_twice split: option.splits)
next
  case (Some old_max)
  show ?thesis
  proof (cases "map_of (cal_input_mins cal) name")
    case None
    with Some show ?thesis by (simp add: merge_into_def)
  next
    case min: (Some old_min)
    have mn: "Option.bind (bo f_min old_min (snd s1)) (\<lambda>a. bo f_min a (snd s2)) =
              Option.bind (bo f_min old_min (snd s2)) (\<lambda>a. bo f_min a (snd s1))"
      by (rule bo_right_commute) (rule f_min_commute, rule f_min_assoc)
    have mx: "Option.bind (bo f_max old_max (fst s1)) (\<lambda>a. bo f_max a (fst s2)) =
              Option.bind (bo f_max old_max (fst s2)) (\<lambda>a. bo f_max a (fst s1))"
      by (rule bo_right_commute) (rule f_max_commute, rule f_max_assoc)
    show ?thesis
      unfolding merge_into_twice[OF Some min] mn mx ..
  qed
qed

lemma hook_step_commute:
  "hook_step name md a (hook_step name md b c) = hook_step name md b (hook_step name md a c)"
proof (cases c)
  case None
  then show ?thesis by (simp add: hook_step_def)
next
  case (Some cal)
  show ?thesis
  proof (cases "batch_stats md a")
    case None
    then show ?thesis by (simp add: hook_step_def hook_as_merge Some split: Option.bind_splits)
  next
    case sa: (Some s1)
    show ?thesis
    proof (cases "batch_stats md b")
      case None
      then show ?thesis by (simp add: hook_step_def hook_as_merge Some split: Option.bind_splits)
    next
      case sb: (Some s2)
      have "hook_step name md a (hook_step name md b c) =
            Option.bind (merge_into name s2 cal) (merge_into name s1)"
        by (simp add: hook_step_def hook_as_merge Some sa sb)
      also have "\<dots> = Option.bind (merge_into name s1 cal) (merge_into name s2)"
        by (rule merge_into_commute)
      also have "\<dots> = hook_step name md b (hook_step name md a c)"
        by (simp add: hook_step_def hook_as_merge Some sa sb)
      finally show ?thesis .
    qed
  qed
qed

lemma feed_batches_as_fold:
  "to_opt (feed_batches name md batches cal) = fold (hook_step name md) batches (Some cal)"
proof (induction batches arbitrary: cal)
  case Nil
  then show ?case by (simp add: feed_batches_def to_opt_def)
next
  case (Cons b bs)
  have none: "fold (hook_step name md) bs None = None"
    by (induction bs) (simp_all add: hook_step_def)
  have step: "hook_step name md b (Some cal) = to_opt (save_input_hook name md b cal)"
    by (simp add: hook_step_def)
  show ?case
  proof (cases "save_input_hook name md b cal")
    case (Inl e)
    then show ?thesis by (simp add: feed_batches_def bindE_def step to_opt_def none)
  next
    case (Inr cal1)
    then show ?thesis
      using Cons.IH[of cal1] by (simp add: feed_batches_def bindE_def step to_opt_def)
  qed
qed

text \<open>
  Claim C6. For every layer and every list of calibration batches that the hook of the layer
  accepts, feeding the same batches in any other order is accepted too and ends with the same
  per-channel running minima and maxima (the same two dictionaries).
\<close>

theorem calibration_order_independent:
  assumes "mset batches' = mset batches"
    and "feed_batches name md batches cal = Inr cal'"
  shows "feed_batches name md batches' cal = Inr cal'"
proof -
  have "fold (hook_step name md) batches' = fold (hook_step name md) batches"
    by (rule fold_multiset_equiv) (auto simp: assms(1) hook_step_commute fun_eq_iff)
  then have "to_opt (feed_batches name md batches' cal) = to_opt (feed_batches name md batches cal)"
    by (simp add: feed_batches_as_fold)
  with assms(2) show ?thesis by (simp add: to_opt_def split: sum.splits)
qed

theorem calibration_order_independent_witness:
  "mset [In2 [[Fin 3, Fin 2], [Fin 0, Fin 7]], In2 [[Fin 1, Fin 5]]] =
     mset [In2 [[Fin 1, Fin 5]], In2 [[Fin 3, Fin 2], [Fin 0, Fin 7]]] \<and>
   feed_batches ''fc'' (Layer (linear_layer [[Fin 1, Fin 1]] None))
       [In2 [[Fin 1, Fin 5]], In2 [[Fin 3, Fin 2], [Fin 0, Fin 7]]]
       \<lparr>cal_input_mins = [], cal_input_maxes = []\<rparr>
     = Inr \<lparr>cal_input_mins = [(''fc'', [Fin 0, Fin 2])], cal_input_maxes = [(''fc'', [Fin 3, Fin 7])]\<rparr> \<and>
   feed_batches ''fc'' (Layer (linear_layer [[Fin 1, Fin 1]] None))
       [In2 [[Fin 3, Fin 2], [Fin 0, Fin 7]], In2 [[Fin 1, Fin 5]]]
       \<lparr>cal_input_mins = [], cal_input_maxes = []\<rparr>
     = Inr \<lparr>cal_input_mins = [(''fc'', [Fin 0, Fin 2])], cal_input_maxes = [(''fc'', [Fin 3, Fin 7])]\<rparr>"
proof -
  have h1: "mset [In2 [[Fin 3, Fin 2], [Fin 0, Fin 7]], In2 [[Fin 1, Fin 5]]] =
     mset [In2 [[Fin 1, Fin 5]], In2 [[Fin 3, Fin 2], [Fin 0, Fin 7]]]"
    by (simp add: add.commute)
  have h2: "feed_batches ''fc'' (Layer (linear_layer [[Fin 1, Fin 1]] None))
       [In2 [[Fin 1, Fin 5]], In2 [[Fin 3, Fin 2], [Fin 0, Fin 7]]]
       \<lparr>cal_input_mins = [], cal_input_maxes = []\<rparr>
     = Inr \<lparr>cal_input_mins = [(''fc'', [Fin 0, Fin 2])], cal_input_maxes = [(''fc'', [Fin 3, Fin 7])]\<rparr>"
    by (simp add: feed_batches_def save_input_hook_def weight_of_def linear_layer_def reshape_last_def
        max_dim0_def min_dim0_def bindE_def dict_get_def bcast_def)
  from calibration_order_independent[OF h1 h2] h1 h2 show ?thesis by simp
qed

section \<open>A transform without a trace\<close>












section \<open>Folding the scales into a LayerNorm followed by a Linear\<close>

lemma weight_max_row_length:
  assumes "weight_max_of [W] = Inr wm" and "row \<in> set W"
  shows "length row = length wm"
proof -
  from assms(1) have cat: "\<forall>r \<in> set W. length r = length (hd W)" and ne: "W \<noteq> []"
    and wm: "max_dim0 (map (map f_abs) W) = Inr wm"
    by (auto simp: weight_max_of_def cat_dim0_def bindE_def Let_def max_dim0_def split: if_splits list.splits)
  from wm obtain r rs where rs: "map (map f_abs) W = r # rs" "wm = fold (\<lambda>x a. map2 f_max a x) rs r"
    by (auto simp: max_dim0_def split: list.splits)
  have len: "\<And>acc. \<forall>r' \<in> set (acc # rs). length r' = length (hd W) \<Longrightarrow>
      length (fold (\<lambda>x a. map2 f_max a x) rs acc) = length (hd W)"
  proof (induction rs)
    case Nil
    then show ?case by simp
  next
    case (Cons x xs)
    show ?case using Cons.prems by (simp add: Cons.IH)
  qed
  have "\<forall>r' \<in> set (map (map f_abs) W). length r' = length (hd W)"
    using cat by auto
  then have "length wm = length (hd W)"
    unfolding rs(2) using len[of r] rs(1) by simp
  with cat assms(2) show ?thesis by simp
qed

lemma scale_2_4:
  "map2 (scale_sizes_agree (1 / 2)) [Fin 2, Fin 4] [Fin 1, Fin 1] = [Fin (sqrt 2), Fin 2]"
  by (simp add: scale_sizes_agree_def clipped_ratio_def sqrt2 sqrt4 clip_sqrt2)

lemma cal_scales_ln_fc:
  assumes "weight_max_of [W] = Inr [Fin 1, Fin 1]"
  shows "cal_scales (fold_state (ln_fc_model g b W c) mins maxes) [(''ln'', [''fc''])]
           [(''fc'', [Fin 2, Fin 4])] (AlphaFloat (1 / 2))
         = Inr ([(''ln'', [Fin (1 / sqrt 2), Fin (1 / 2)])], [(''fc'', [Fin (sqrt 2), Fin 2])])"
proof -
  have "cal_scale_orig [Fin 2, Fin 4] [W] (1 / 2) = Inr [Fin (sqrt 2), Fin 2]"
    using cal_scale_agree[OF assms, of "[Fin 2, Fin 4]" "1 / 2"] scale_2_4 by simp
  then show ?thesis
    by (simp add: cal_scales_def cal_scales_step_def absorb_to_input_max_def dict_get_def bindE_def
        reshape_in_channel_to_last_def weight_of_def get_module_def ln_fc_model_def fold_state_def
        TorchSmoothQuant_init_def linear_layer_def alpha_for_def cal_scale_def mask_set_def f_recip_def)
qed

lemma absorb_ln:
  assumes "length g = 2" and "length b = 2"
  shows "absorb_scales (fold_state (ln_fc_model g b W c) mins maxes) ''ln'' [Fin r1, Fin r2]
         = Inr (fold_state (ln_fc_model (map2 f_mul g [Fin r1, Fin r2]) (map2 f_mul b [Fin r1, Fin r2]) W c) mins maxes)"
  using assms
  by (simp add: absorb_scales_def absorb_layer_def absorb_weight_bias_def imul_opt_def imul_bias_def
      along_last_def bc_def bcast_inplace_def bcast_def bindE_def get_module_def mutate_module_def
      ln_fc_model_def fold_state_def TorchSmoothQuant_init_def layer_norm_layer_def)

lemma scale_fc:
  assumes "\<forall>row \<in> set W. length row = 2"
  shows "scale_layer_weight (fold_state (ln_fc_model g b W c) mins maxes) ''fc'' [Fin r1, Fin r2] mm
         = Inr (fold_state (ln_fc_model g b (map (\<lambda>row. map2 f_mul row [Fin r1, Fin r2]) W) c) mins maxes)"
proof -
  have rows: "mapE (\<lambda>row. bc False f_mul row [Fin r1, Fin r2]) W = Inr (map (\<lambda>row. map2 f_mul row [Fin r1, Fin r2]) W)"
    by (rule mapE_Inr) (use assms in \<open>simp add: bc_def bcast_def\<close>)
  show ?thesis
    by (simp add: scale_layer_weight_def Let_def reshape_scale_as_weight_def weight_of_def
        along_last_def rows bindE_def get_module_def mutate_module_def
        ln_fc_model_def fold_state_def TorchSmoothQuant_init_def linear_layer_def)
qed

lemma adjust_ln_fc:
  assumes "length g = 2" and "length b = 2" and "weight_max_of [W] = Inr [Fin 1, Fin 1]"
    and "map_of mins ''fc'' = Some mn" and "map_of maxes ''fc'' = Some mx"
  shows "adjust_parameters (fold_state (ln_fc_model g b W c) mins maxes) [(''ln'', [''fc''])]
           [(''fc'', [Fin 2, Fin 4])] (AlphaFloat (1 / 2))
     = Inr (fold_state (ln_fc_model (map2 f_mul g [Fin (1 / sqrt 2), Fin (1 / 2)])
                          (map2 f_mul b [Fin (1 / sqrt 2), Fin (1 / 2)])
                          (map (\<lambda>row. map2 f_mul row [Fin (sqrt 2), Fin 2]) W) c) mins maxes,
            [(''fc'', [Fin (sqrt 2), Fin 2])], [(''ln'', [Fin (1 / sqrt 2), Fin (1 / 2)])])"
proof -
  have rows: "\<forall>row \<in> set W. length row = 2"
    using weight_max_row_length[OF assms(3)] by simp
  have mm: "self_input_mins (fold_state m mins maxes) = mins" "self_input_maxes (fold_state m mins maxes) = maxes" for m
    by (simp_all add: fold_state_def TorchSmoothQuant_init_def)
  show ?thesis
    using assms(4,5)
    by (simp add: adjust_parameters_def cal_scales_ln_fc[OF assms(3)] adjust_group_def bindE_def
        dict_get_def absorb_ln[OF assms(1,2)] scale_fc[OF rows] mm)
qed


lemma f_mul_assoc_pos: "0 < r \<Longrightarrow> f_mul n (f_mul g (Fin r)) = f_mul (f_mul n g) (Fin r)"
  by (cases n; cases g) (auto simp: zero_less_mult_iff mult_less_0_iff)

lemma f_mul_distrib_pos: "0 < r \<Longrightarrow> f_add (f_mul u (Fin r)) (f_mul v (Fin r)) = f_mul (f_add u v) (Fin r)"
  by (cases u; cases v) (auto simp: zero_less_mult_iff mult_less_0_iff algebra_simps)

lemma f_mul_recip_pos: "0 < r \<Longrightarrow> f_mul (f_mul y (Fin (1 / r))) (f_mul w (Fin r)) = f_mul y w"
  by (cases y; cases w) (auto simp: zero_less_mult_iff mult_less_0_iff zero_less_divide_iff divide_less_0_iff)

lemma list2: "length xs = 2 \<Longrightarrow> \<exists>a b. xs = [a, b]"
  by (cases xs; cases "tl xs") auto

lemma sequential_forward_two:
  "sequential_forward normalise m [n1, n2] X =
     bindE (forward normalise (get_module m n1) X) (forward normalise (get_module m n2))"
  by (simp add: sequential_forward_def bindE_def split: sum.splits)

lemma get_ln_fc:
  "get_module (ln_fc_model g b W c) ''ln'' = Layer (layer_norm_layer g b)"
  "get_module (ln_fc_model g b W c) ''fc'' = Layer (linear_layer W c)"
  by (simp_all add: get_module_def ln_fc_model_def)

lemma forward_ln_fc_scaled:
  assumes "length g = 2" and "length b = 2" and "\<forall>row \<in> set W. length row = 2"
    and "0 < r1" and "0 < r2"
  shows "sequential_forward normalise
           (ln_fc_model (map2 f_mul g [Fin (1 / r1), Fin (1 / r2)]) (map2 f_mul b [Fin (1 / r1), Fin (1 / r2)])
              (map (\<lambda>row. map2 f_mul row [Fin r1, Fin r2]) W) c) [''ln'', ''fc''] X
       = sequential_forward normalise (ln_fc_model g b W c) [''ln'', ''fc''] X"
proof (cases "length X = 2 \<and> length (normalise X) = 2")
  case False
  then show ?thesis
    using assms(1,2)
    by (auto simp: sequential_forward_two get_ln_fc bindE_def layer_forward_def
        layer_norm_forward_def layer_norm_layer_def)
next
  case True
  from assms(1,2) obtain g0 g1 b0 b1 where gb: "g = [g0, g1]" "b = [b0, b1]"
    using list2 by blast
  from True obtain n0 n1 where n: "normalise X = [n0, n1]" using list2 by blast
  let ?Y = "[f_add (f_mul n0 g0) b0, f_add (f_mul n1 g1) b1]"
  let ?Y' = "[f_mul (f_add (f_mul n0 g0) b0) (Fin (1 / r1)), f_mul (f_add (f_mul n1 g1) b1) (Fin (1 / r2))]"
  have p: "0 < 1 / r1" "0 < 1 / r2" using assms(4,5) by simp_all
  have ln: "forward normalise (Layer (layer_norm_layer g b)) X = Inr ?Y"
    using True by (simp add: layer_forward_def layer_norm_forward_def layer_norm_layer_def gb n)
  have ln': "forward normalise (Layer (layer_norm_layer (map2 f_mul g [Fin (1 / r1), Fin (1 / r2)])
                (map2 f_mul b [Fin (1 / r1), Fin (1 / r2)]))) X = Inr ?Y'"
    using True
    by (simp add: layer_forward_def layer_norm_forward_def layer_norm_layer_def gb n
        f_mul_assoc_pos[OF p(1)] f_mul_assoc_pos[OF p(2)] f_mul_distrib_pos[OF p(1)] f_mul_distrib_pos[OF p(2)])
  have dots: "map (dot ?Y') (map (\<lambda>row. map2 f_mul row [Fin r1, Fin r2]) W) = map (dot ?Y) W"
  proof -
    have "dot ?Y' (map2 f_mul row [Fin r1, Fin r2]) = dot ?Y row" if "row \<in> set W" for row
    proof -
      from that assms(3) obtain w0 w1 where "row = [w0, w1]" using list2 by blast
      then show ?thesis
        by (simp add: dot_def f_mul_recip_pos[OF assms(4)] f_mul_recip_pos[OF assms(5)])
    qed
    then show ?thesis by simp
  qed
  have fc: "forward normalise (Layer (linear_layer (map (\<lambda>row. map2 f_mul row [Fin r1, Fin r2]) W) c)) ?Y'
        = forward normalise (Layer (linear_layer W c)) ?Y"
    using assms(3)
    by (simp add: layer_forward_def linear_forward_def linear_layer_def dots split: option.splits del: map_map)
  show ?thesis
    using ln ln' fc by (simp add: sequential_forward_two get_ln_fc bindE_def)
qed


lemma f_mul_undo_pos: "0 < r \<Longrightarrow> f_mul (f_mul v (Fin r)) (Fin (1 / r)) = v"
  by (cases v) (auto)

lemma revert_ln_fc:
  assumes "length g = 2" and "length b = 2" and "\<forall>row \<in> set W. length row = 2"
    and "0 < r1" and "0 < r2"
  shows "revert ((fold_state (ln_fc_model (map2 f_mul g [Fin (1 / r1), Fin (1 / r2)])
                    (map2 f_mul b [Fin (1 / r1), Fin (1 / r2)])
                    (map (\<lambda>row. map2 f_mul row [Fin r1, Fin r2]) W) c) mins maxes)
                 \<lparr>self_weight_scale_info := [(''fc'', [Fin r1, Fin r2])],
                  self_absorb_scales_info := [(''ln'', [Fin (1 / r1), Fin (1 / r2)])]\<rparr>)
         = Inr (fold_state (ln_fc_model g b W c) mins maxes)"
proof -
  from assms(1,2) obtain g0 g1 b0 b1 where gb: "g = [g0, g1]" "b = [b0, b1]"
    using list2 by blast
  have p: "0 < 1 / r1" "0 < 1 / r2" "r1 \<noteq> 0" "r2 \<noteq> 0" using assms(4,5) by simp_all
  let ?W' = "map (\<lambda>row. map2 f_mul row [Fin r1, Fin r2]) W"
  have rows': "\<forall>row \<in> set ?W'. length row = 2" using assms(3) by auto
  have undo: "map (\<lambda>row. map2 f_mul row [Fin (1 / r1), Fin (1 / r2)]) ?W' = W"
  proof -
    have "map2 f_mul (map2 f_mul row [Fin r1, Fin r2]) [Fin (1 / r1), Fin (1 / r2)] = row"
      if "row \<in> set W" for row
    proof -
      from that assms(3) obtain w0 w1 where "row = [w0, w1]" using list2 by blast
      then show ?thesis by (simp add: f_mul_undo_pos[OF assms(4)] f_mul_undo_pos[OF assms(5)])
    qed
    then show ?thesis by (simp add: map_idI)
  qed
  have gb': "map2 f_mul (map2 f_mul g [Fin (1 / r1), Fin (1 / r2)]) [Fin r1, Fin r2] = g"
       "map2 f_mul (map2 f_mul b [Fin (1 / r1), Fin (1 / r2)]) [Fin r1, Fin r2] = b"
    using f_mul_undo_pos[OF p(1)] f_mul_undo_pos[OF p(2)] p(3,4) by (simp_all add: gb)
  have recs: "map f_recip [Fin r1, Fin r2] = [Fin (1 / r1), Fin (1 / r2)]"
    "map f_recip [Fin (1 / r1), Fin (1 / r2)] = [Fin r1, Fin r2]"
    using p(3,4) by (simp_all add: f_recip_def)
  let ?st = "fold_state (ln_fc_model (map2 f_mul g [Fin (1 / r1), Fin (1 / r2)])
                    (map2 f_mul b [Fin (1 / r1), Fin (1 / r2)]) ?W' c) mins maxes"
  have upd: "scale_layer_weight (s\<lparr>self_weight_scale_info := ws, self_absorb_scales_info := as\<rparr>) k v mm
      = map_sum id (\<lambda>s'. s'\<lparr>self_weight_scale_info := ws, self_absorb_scales_info := as\<rparr>)
          (scale_layer_weight s k v mm)" for s ws as k v mm
    by (auto simp: scale_layer_weight_def Let_def bindE_def split: module.splits option.splits sum.splits)
  have upd2: "absorb_scales (s\<lparr>self_weight_scale_info := ws, self_absorb_scales_info := as\<rparr>) k v
      = map_sum id (\<lambda>s'. s'\<lparr>self_weight_scale_info := ws, self_absorb_scales_info := as\<rparr>)
          (absorb_scales s k v)" for s ws as k v
    by (auto simp: absorb_scales_def bindE_def split: module.splits option.splits sum.splits)
  have l2: "length (map2 f_mul g [Fin (1 / r1), Fin (1 / r2)]) = 2"
     "length (map2 f_mul b [Fin (1 / r1), Fin (1 / r2)]) = 2" using assms(1,2) by simp_all
  have fs: "fold_state m mins maxes\<lparr>self_weight_scale_info := [], self_absorb_scales_info := []\<rparr>
      = fold_state m mins maxes" for m
    by (simp add: fold_state_def TorchSmoothQuant_init_def)
  show ?thesis
    using p(3,4)
    by (simp add: revert_def bindE_def f_recip_def upd upd2 scale_fc[OF rows'] undo absorb_ln[OF l2] gb' fs
        del: map_map)
qed

text \<open>
  Claim C4, as amended. In the scenario (a LayerNorm \<open>ln\<close> with two channels followed by a
  Linear \<open>fc\<close> whose per-channel weight maximum is \<open>[1, 1]\<close>, calibration maximum \<open>[2, 4]\<close>,
  alpha 0.5) the computed weight scale is \<open>[sqrt 2, 2]\<close> and the absorb scale is its reciprocal
  \<open>[1 / sqrt 2, 1 / 2]\<close>. The fold multiplies the LayerNorm weight and bias by the absorb
  scale and the columns of the Linear weight by the weight scale, and the forward output of
  the two layers is the same as before on every input, in exact arithmetic.
\<close>

theorem fold_layer_norm_linear:
  assumes "length g = 2" and "length b = 2" and "weight_max_of [W] = Inr [Fin 1, Fin 1]"
    and "map_of mins ''fc'' = Some mn" and "map_of maxes ''fc'' = Some mx"
  shows "adjust_parameters (fold_state (ln_fc_model g b W c) mins maxes) [(''ln'', [''fc''])]
           [(''fc'', [Fin 2, Fin 4])] (AlphaFloat (1 / 2))
     = Inr (fold_state (ln_fc_model (map2 f_mul g [Fin (1 / sqrt 2), Fin (1 / 2)])
                          (map2 f_mul b [Fin (1 / sqrt 2), Fin (1 / 2)])
                          (map (\<lambda>row. map2 f_mul row [Fin (sqrt 2), Fin 2]) W) c) mins maxes,
            [(''fc'', [Fin (sqrt 2), Fin 2])], [(''ln'', [Fin (1 / sqrt 2), Fin (1 / 2)])]) \<and>
     sequential_forward normalise
        (ln_fc_model (map2 f_mul g [Fin (1 / sqrt 2), Fin (1 / 2)])
           (map2 f_mul b [Fin (1 / sqrt 2), Fin (1 / 2)])
           (map (\<lambda>row. map2 f_mul row [Fin (sqrt 2), Fin 2]) W) c) [''ln'', ''fc''] X
     = sequential_forward normalise (ln_fc_model g b W c) [''ln'', ''fc''] X"
proof -
  have rows: "\<forall>row \<in> set W. length row = 2"
    using weight_max_row_length[OF assms(3)] by simp
  have pos: "(0::real) < sqrt 2" "(0::real) < 2" by simp_all
  show ?thesis
    using adjust_ln_fc[OF assms, of c] forward_ln_fc_scaled[OF assms(1,2) rows pos, of normalise c X]
    by simp
qed

theorem fold_layer_norm_linear_witness:
  "weight_max_of [[[Fin 1, Fin (- 1)], [Fin (1 / 2), Fin 1]]] = Inr [Fin 1, Fin 1] \<and>
   adjust_parameters
       (fold_state (ln_fc_model [Fin 3, Fin 5] [Fin 1, Fin 0] [[Fin 1, Fin (- 1)], [Fin (1 / 2), Fin 1]] None)
          [(''fc'', [Fin (- 2), Fin 0])] [(''fc'', [Fin 1, Fin 4])])
       [(''ln'', [''fc''])] [(''fc'', [Fin 2, Fin 4])] (AlphaFloat (1 / 2))
     = Inr (fold_state
              (ln_fc_model [Fin (3 / sqrt 2), Fin (5 / 2)] [Fin (1 / sqrt 2), Fin 0]
                 [[Fin (sqrt 2), Fin (- 2)], [Fin (sqrt 2 / 2), Fin 2]] None)
              [(''fc'', [Fin (- 2), Fin 0])] [(''fc'', [Fin 1, Fin 4])],
            [(''fc'', [Fin (sqrt 2), Fin 2])], [(''ln'', [Fin (1 / sqrt 2), Fin (1 / 2)])]) \<and>
   sequential_forward id
       (ln_fc_model [Fin (3 / sqrt 2), Fin (5 / 2)] [Fin (1 / sqrt 2), Fin 0]
          [[Fin (sqrt 2), Fin (- 2)], [Fin (sqrt 2 / 2), Fin 2]] None) [''ln'', ''fc''] [Fin 1, Fin 2]
     = sequential_forward id
         (ln_fc_model [Fin 3, Fin 5] [Fin 1, Fin 0] [[Fin 1, Fin (- 1)], [Fin (1 / 2), Fin 1]] None)
         [''ln'', ''fc''] [Fin 1, Fin 2]"
proof -
  have h1: "length [Fin 3, Fin 5] = 2" by simp
  have h2: "length [Fin 1, Fin 0] = 2" by simp
  have h3: "weight_max_of [[[Fin 1, Fin (- 1)], [Fin (1 / 2), Fin 1]]] = Inr [Fin 1, Fin 1]"
    by (simp add: weight_max_of_def cat_dim0_def max_dim0_def bindE_def)
  have h4: "map_of [(''fc'', [Fin (- 2), Fin 0])] ''fc'' = Some [Fin (- 2), Fin 0]" by simp
  have h5: "map_of [(''fc'', [Fin 1, Fin 4])] ''fc'' = Some [Fin 1, Fin 4]" by simp
  from fold_layer_norm_linear[OF h1 h2 h3 h4 h5, of None id "[Fin 1, Fin 2]"] h3
  show ?thesis by simp
qed

text \<open>
  Claim C4 as stated fails: the absorb scale is not \<open>[sqrt 2, 2]\<close> but its reciprocal. With
  LayerNorm weight and bias \<open>[1, 1]\<close> and Linear weight \<open>[[1, 1]]\<close> the fold leaves the LayerNorm
  with \<open>[1 / sqrt 2, 1 / 2]\<close> and the Linear with \<open>[[sqrt 2, 2]]\<close>.
\<close>

theorem fold_layer_norm_linear_counterexample:
  "adjust_parameters
       (fold_state (ln_fc_model [Fin 1, Fin 1] [Fin 1, Fin 1] [[Fin 1, Fin 1]] None)
          [(''fc'', [Fin 2, Fin 4])] [(''fc'', [Fin 2, Fin 4])])
       [(''ln'', [''fc''])] [(''fc'', [Fin 2, Fin 4])] (AlphaFloat (1 / 2))
     = Inr (fold_state
              (ln_fc_model [Fin (1 / sqrt 2), Fin (1 / 2)] [Fin (1 / sqrt 2), Fin (1 / 2)]
                 [[Fin (sqrt 2), Fin 2]] None)
              [(''fc'', [Fin 2, Fin 4])] [(''fc'', [Fin 2, Fin 4])],
            [(''fc'', [Fin (sqrt 2), Fin 2])], [(''ln'', [Fin (1 / sqrt 2), Fin (1 / 2)])]) \<and>
   [Fin (1 / sqrt 2), Fin (1 / 2)] \<noteq> [Fin (sqrt 2), Fin 2]"
proof -
  have h1: "length [Fin 1, Fin (1::real)] = 2" by simp
  have h3: "weight_max_of [[[Fin 1, Fin 1]]] = Inr [Fin 1, Fin 1]"
    by (simp add: weight_max_of_def cat_dim0_def max_dim0_def bindE_def)
  have h4: "map_of [(''fc'', [Fin 2, Fin 4])] ''fc'' = Some [Fin 2, Fin 4]" by simp
  from adjust_ln_fc[OF h1 h1 h3 h4 h4, of None] show ?thesis by simp
qed

section \<open>Reverting a fold\<close>

text \<open>
  Claim C1 at a failing input: a LayerNorm with weight and bias \<open>[1, 1]\<close> followed by a Linear
  whose weight \<open>[[1, 0]]\<close> has a zero input column, calibration input \<open>[[2, 4]]\<close>, a fold-mode
  transform with alpha 0.5 and then \<open>revert\<close>. The scale of the zero column is forced to 0, the
  fold multiplies the second LayerNorm channel by 0, and \<open>revert\<close> multiplies by
  \<open>1.0 / 0 = inf\<close>: the second channel of the LayerNorm weight and bias and the zero column of
  the Linear weight end as NaN instead of their original values. The scale records are
  cleared. (\<open>revert_ln_fc\<close> above shows that the round trip does restore this model when both
  scales are positive.)
\<close>

theorem transform_revert_zero_channel:
  "bindE (transform (TorchSmoothQuant_init (ln_fc_model [Fin 1, Fin 1] [Fin 1, Fin 1] [[Fin 1, Fin 0]] None) False True False)
     \<lparr>env_traced = Some [(''__module.fc'', Some ''__module.ln'')], env_is_peft = False,
      env_observe = (\<lambda>n. Inr [(''fc'', In2 [[Fin 2, Fin 4]])]), env_tune = Inl NotModelled\<rparr>
     (AlphaFloat (1 / 2)) True 100 [Linear, Conv2d] False 100) revert
   = Inr ((TorchSmoothQuant_init (ln_fc_model [Fin 1, NaN] [Fin 1, NaN] [[Fin 1, NaN]] None) False True False)
       \<lparr>self_input_maxes := [(''fc'', [Fin 2, Fin 4])],
        self_input_mins := [(''fc'', [Fin 2, Fin 4])],
        self_absorb_to_layer := Some [(''ln'', [''fc''])],
        self_need_calibration := True,
        self_alpha := Some (AlphaFloat (1 / 2)), self_percentile := Some 100,
        self_op_types := Some [Linear, Conv2d], self_scales_per_op := Some False,
        self_calib_iter := Some 100\<rparr>)"
  by (simp add: sq_defs sqrt2 sqrt4 clip_sqrt2 Let_def scope_to_name_def remove_unsupported_layers_def
      type_supported_def check_valid_conv_def supported_torch_module_to_aten_def)

section \<open>The random strategy yields for ever\<close>





end
